theory Spec2Isabelle
  imports Complex_Main "HOL-Library.Signed_Division"
begin

section \<open>Machine integers and Go's time package\<close>

text \<open>
  Go's \<open>int\<close> (taken to be 64 bits wide, as on windows/amd64), \<open>int64\<close> and
  \<open>time.Duration\<close> (an \<open>int64\<close> count of nanoseconds) are modelled as \<open>int\<close>, with the
  wrap-around of the two's complement arithmetic written out by \<open>wrap64\<close> wherever the
  source adds, subtracts or multiplies. Go's \<open>/\<close> and \<open>%\<close> truncate towards zero: they are
  \<open>sdiv\<close> and \<open>smod\<close>.
\<close>

definition int64 :: "int \<Rightarrow> bool" where
  "int64 x \<longleftrightarrow> - (2 ^ 63) \<le> x \<and> x < 2 ^ 63"

definition wrap64 :: "int \<Rightarrow> int" where
  "wrap64 x = (x + 2 ^ 63) mod 2 ^ 64 - 2 ^ 63"

definition uint64 :: "int \<Rightarrow> int" where
  "uint64 x = x mod 2 ^ 64"

definition Second :: int where
  "Second = 1000000000"

definition Minute :: int where
  "Minute = 60 * Second"

definition minDuration :: int where
  "minDuration = - (2 ^ 63)"

definition maxDuration :: int where
  "maxDuration = 2 ^ 63 - 1"

text \<open>
  \<open>time.Duration.Round\<close>, as package time implements it: the remainder decides the
  direction, halfway values go away from zero, and a result that does not fit a Duration is
  replaced by the largest (smallest) Duration.
\<close>

definition lessThanHalf :: "int \<Rightarrow> int \<Rightarrow> bool" where
  "lessThanHalf x y \<longleftrightarrow> uint64 (uint64 x + uint64 x) < uint64 y"

definition Round :: "int \<Rightarrow> int \<Rightarrow> int" where
  "Round d m =
     (if m \<le> 0 then d
      else let r = d smod m in
        if d < 0 then
          (let r = wrap64 (- r) in
           if lessThanHalf r m then wrap64 (d + r)
           else let d1 = wrap64 (wrap64 (d - m) + r) in
             if d1 < d then d1 else minDuration)
        else if lessThanHalf r m then wrap64 (d - r)
        else let d1 = wrap64 (wrap64 (d + m) - r) in
          if d1 > d then d1 else maxDuration)"

text \<open>
  \<open>time.Duration.Seconds\<close> returns \<open>float64(d / Second) + float64(d % Second) / 1e9\<close>, and
  \<open>int(x)\<close> drops the fraction of \<open>x\<close>. The floating point value is modelled by the exact
  real number. Both agree wherever \<open>formatDuration\<close> calls them: the quotient is below
  \<open>2 ^ 53\<close> in absolute value, so its conversion is exact; after \<open>Round\<close> the remainder is
  \<open>0\<close>, except for \<open>maxDuration\<close> and \<open>minDuration\<close>, whose fractions (.854775807 and
  .854775808) are far from the next whole second.
\<close>

definition Seconds :: "int \<Rightarrow> real" where
  "Seconds d = (let sec = d sdiv Second; nsec = d smod Second
                in of_int sec + of_int nsec / 1000000000)"

definition toInt :: "real \<Rightarrow> int" where
  "toInt x = (if x < 0 then \<lceil>x\<rceil> else \<lfloor>x\<rfloor>)"

text \<open>
  A \<open>time.Time\<close> is modelled by its number of nanoseconds since the Unix epoch, so that
  \<open>time.Unix(0, n)\<close> is \<open>n\<close> and \<open>t.UnixNano()\<close> is \<open>t\<close> (the clock is taken to lie
  between the years 1678 and 2262, where \<open>UnixNano\<close> is defined). \<open>Time.Add\<close> adds the
  duration; \<open>Time.Sub\<close> saturates at the largest and smallest Duration. \<open>time.Since\<close> and
  \<open>time.Until\<close> read the clock: the reading is the argument \<open>now\<close>.
\<close>

definition Add :: "int \<Rightarrow> int \<Rightarrow> int" where
  "Add t d = t + d"

definition Sub :: "int \<Rightarrow> int \<Rightarrow> int" where
  "Sub t u =
     (if t - u > maxDuration then maxDuration
      else if t - u < minDuration then minDuration
      else t - u)"

definition Since :: "int \<Rightarrow> int \<Rightarrow> int" where
  "Since now t = Sub now t"

definition Until :: "int \<Rightarrow> int \<Rightarrow> int" where
  "Until now t = Sub t now"

section \<open>formatDuration\<close>

text \<open>\<open>fmt.Sprintf("%d", i)\<close>: the decimal digits of \<open>i\<close>, after a minus sign when negative.\<close>

fun digits :: "nat \<Rightarrow> string" where
  "digits n = (if n < 10 then [''0123456789'' ! n]
               else digits (n div 10) @ [''0123456789'' ! (n mod 10)])"

declare digits.simps [simp del]

definition Sprintf_d :: "int \<Rightarrow> string" where
  "Sprintf_d i = (if i < 0 then ''-'' @ digits (nat (- i)) else digits (nat i))"

text \<open>
  \<open>totalSeconds\<close> is the local variable of that name at the point where the hours, minutes
  and seconds are computed: the rounded duration in whole seconds, and zero when that is
  negative.
\<close>

definition totalSeconds :: "int \<Rightarrow> int" where
  "totalSeconds d0 =
     (let d = Round d0 Second;
          totalSeconds = toInt (Seconds d)
      in if totalSeconds < 0 then 0 else totalSeconds)"

definition formatDuration :: "int \<Rightarrow> string" where
  "formatDuration d =
     (let totalSeconds = totalSeconds d;
          h = totalSeconds sdiv 3600;
          m = (totalSeconds sdiv 60) smod 60;
          s = totalSeconds smod 60
      in Sprintf_d h @ ''h '' @ Sprintf_d m @ ''m '' @ Sprintf_d s @ ''s'')"

text \<open>
  What the specification says of \<open>formatDuration\<close>, in its own words: the duration is rounded
  to the nearest second (halves away from zero), a negative total becomes zero, and hours,
  minutes and seconds are the integer quotients and remainders of the total.
\<close>

definition nearestSecond :: "int \<Rightarrow> int" where
  "nearestSecond d = sgn d * ((\<bar>d\<bar> + 500000000) div 1000000000)"

definition render_hms :: "int \<Rightarrow> string" where
  "render_hms secs =
     Sprintf_d (secs div 3600) @ ''h '' @ Sprintf_d ((secs div 60) mod 60) @ ''m ''
       @ Sprintf_d (secs mod 60) @ ''s''"

definition formatDuration_spec :: "int \<Rightarrow> string" where
  "formatDuration_spec d = render_hms (max 0 (nearestSecond d))"

section \<open>Configuration and the settings file\<close>

definition defaultInterval :: int where
  "defaultInterval = 3"

definition defaultReminderTitle :: string where
  "defaultReminderTitle = ''Posture Reminder''"

definition defaultReminderMessage :: string where
  "defaultReminderMessage = ''Time to check your posture!''"

definition minInterval :: int where
  "minInterval = 1"

definition maxInterval :: int where
  "maxInterval = 24 * 60"

record Config =
  IntervalMinutes :: int
  ReminderTitle :: string
  ReminderMessage :: string

datatype error = ReadError | UnmarshalError | MarshalError | WriteError | PushError

text \<open>The lines the program prints with \<open>fmt.Printf\<close>, one constructor for each format.\<close>

datatype Warning =
    WarnWriteDefault
  | WarnInvalidJSON
  | WarnSaveAdjusted
  | WarnSaveConfig
  | WarnToast

text \<open>
  The world outside the process: the content of the settings file (\<open>None\<close> when \<open>os.ReadFile\<close> fails, as
  it does for a file that does not exist), whether \<open>os.WriteFile\<close> succeeds, the data of
  every \<open>os.WriteFile\<close> call on the settings file in order, the printed lines, and the
  notifications pushed and message boxes opened, each with its title and message.
\<close>

record World =
  settings :: "string option"
  writable :: bool
  writeLog :: "string list"
  printed :: "Warning list"
  toasts :: "(string \<times> string) list"
  boxes :: "(string \<times> string) list"

text \<open>
  \<open>json.Unmarshal\<close> and \<open>json.MarshalIndent\<close> belong to Go's library: they are parameters
  of the model. \<open>Unmarshal\<close> gives the decoded Config, or \<open>None\<close> for an error.
\<close>

record Json =
  Unmarshal :: "string \<Rightarrow> Config option"
  MarshalIndent :: "Config \<Rightarrow> string option"

definition Printf :: "Warning \<Rightarrow> World \<Rightarrow> World" where
  "Printf line w = w\<lparr>printed := printed w @ [line]\<rparr>"

definition ReadFile :: "World \<Rightarrow> error + string" where
  "ReadFile w = (case settings w of None \<Rightarrow> Inl ReadError | Some data \<Rightarrow> Inr data)"

definition WriteFile :: "string \<Rightarrow> World \<Rightarrow> error option \<times> World" where
  "WriteFile data w =
     (let w' = w\<lparr>writeLog := writeLog w @ [data]\<rparr>
      in if writable w then (None, w'\<lparr>settings := Some data\<rparr>) else (Some WriteError, w'))"

definition saveConfig :: "Json \<Rightarrow> Config \<Rightarrow> World \<Rightarrow> error option \<times> World" where
  "saveConfig J c w =
     (case MarshalIndent J c of
        None \<Rightarrow> (Some MarshalError, w)
      | Some data \<Rightarrow>
          (case WriteFile data w of
             (Some e, w') \<Rightarrow> (Some WriteError, w')
           | (None, w') \<Rightarrow> (None, w')))"

definition defaultCfg :: Config where
  "defaultCfg = \<lparr>IntervalMinutes = defaultInterval,
                 ReminderTitle = defaultReminderTitle,
                 ReminderMessage = defaultReminderMessage\<rparr>"

definition saveDefault :: "Json \<Rightarrow> World \<Rightarrow> Config \<times> World" where
  "saveDefault J w =
     (case saveConfig J defaultCfg w of
        (Some saveErr, w') \<Rightarrow> (defaultCfg, Printf WarnWriteDefault w')
      | (None, w') \<Rightarrow> (defaultCfg, w'))"

definition loadConfig :: "Json \<Rightarrow> World \<Rightarrow> Config \<times> World" where
  "loadConfig J w =
     (case ReadFile w of
        Inl err \<Rightarrow> saveDefault J w
      | Inr data \<Rightarrow>
          (case Unmarshal J data of
             None \<Rightarrow> saveDefault J (Printf WarnInvalidJSON w)
           | Some cfg0 \<Rightarrow>
               (let needsSave = False;
                    (cfg1, needsSave) =
                      (if IntervalMinutes cfg0 < minInterval
                       then (cfg0\<lparr>IntervalMinutes := minInterval\<rparr>, True)
                       else (cfg0, needsSave));
                    (cfg2, needsSave) =
                      (if IntervalMinutes cfg1 > maxInterval
                       then (cfg1\<lparr>IntervalMinutes := maxInterval\<rparr>, True)
                       else (cfg1, needsSave));
                    (cfg3, needsSave) =
                      (if ReminderTitle cfg2 = ''''
                       then (cfg2\<lparr>ReminderTitle := defaultReminderTitle\<rparr>, True)
                       else (cfg2, needsSave));
                    (cfg4, needsSave) =
                      (if ReminderMessage cfg3 = ''''
                       then (cfg3\<lparr>ReminderMessage := defaultReminderMessage\<rparr>, True)
                       else (cfg3, needsSave))
                in if needsSave
                   then (case saveConfig J cfg4 w of
                           (Some saveErr, w') \<Rightarrow> (cfg4, Printf WarnSaveAdjusted w')
                         | (None, w') \<Rightarrow> (cfg4, w'))
                   else (cfg4, w))))"

text \<open>
  The sanitized form of a decoded configuration, in the specification's words: the interval
  clamped to the range from 1 to 1440, an empty title or message replaced by its default.
\<close>

definition sanitized :: "Config \<Rightarrow> Config" where
  "sanitized c =
     \<lparr>IntervalMinutes = max 1 (min 1440 (IntervalMinutes c)),
      ReminderTitle = (if ReminderTitle c = [] then ''Posture Reminder'' else ReminderTitle c),
      ReminderMessage =
        (if ReminderMessage c = [] then ''Time to check your posture!''
         else ReminderMessage c)\<rparr>"

definition valid :: "Config \<Rightarrow> bool" where
  "valid c \<longleftrightarrow>
     1 \<le> IntervalMinutes c \<and> IntervalMinutes c \<le> 1440
       \<and> ReminderTitle c \<noteq> [] \<and> ReminderMessage c \<noteq> []"

section \<open>Notifications\<close>

definition showMessage :: "string \<Rightarrow> string \<Rightarrow> World \<Rightarrow> World" where
  "showMessage title message w = w\<lparr>boxes := boxes w @ [(title, message)]\<rparr>"

text \<open>\<open>push\<close> is what \<open>notification.Push()\<close> returns: \<open>None\<close> for \<open>nil\<close>.\<close>

definition showToast :: "error option \<Rightarrow> string \<Rightarrow> string \<Rightarrow> World \<Rightarrow> error option \<times> World" where
  "showToast push title message w =
     (let w' = w\<lparr>toasts := toasts w @ [(title, message)]\<rparr>
      in case push of
           Some err \<Rightarrow> (Some err, Printf WarnToast w')
         | None \<Rightarrow> (None, w'))"

section \<open>The tray application\<close>

text \<open>
  The variables of \<open>onReady\<close> that its closures share, the titles shown in the tray, and
  \<open>spawned\<close>: the arguments of every \<open>go func(tit, msg)\<close> statement executed so far, one
  entry for each delivery goroutine started.
\<close>

record State =
  cfg :: Config
  lastTriggeredUnix :: int
  isMessageShowing :: bool
  tooltip :: string
  countdownTitle :: string
  intervalTitle :: string
  spawned :: "(string \<times> string) list"
  world :: World

definition baseTooltip :: string where
  "baseTooltip = [CHR 0xE2, CHR 0x9C, CHR 0xA8] @ ''Sit smart. Move often. Feel better.''"

definition updateInterval :: "Json \<Rightarrow> int \<Rightarrow> State \<Rightarrow> State" where
  "updateInterval J newInterval0 st =
     (let newInterval = (if newInterval0 < minInterval then minInterval else newInterval0);
          newInterval = (if newInterval > maxInterval then maxInterval else newInterval);
          cfg' = (cfg st)\<lparr>IntervalMinutes := newInterval\<rparr>;
          (saveErr, w) = saveConfig J cfg' (world st);
          w = (if saveErr \<noteq> None then Printf WarnSaveConfig w else w);
          d = wrap64 (IntervalMinutes cfg' * Minute)
      in st\<lparr>cfg := cfg', world := w,
             intervalTitle := ''Interval: '' @ formatDuration d\<rparr>)"

text \<open>
  The interval cases of the event loop all call \<open>updateInterval(cfg.IntervalMinutes + k)\<close>
  with a constant \<open>k\<close>; \<open>adjust\<close> is that call.
\<close>

definition adjust :: "Json \<Rightarrow> int \<Rightarrow> State \<Rightarrow> State" where
  "adjust J delta st = updateInterval J (wrap64 (IntervalMinutes (cfg st) + delta)) st"

datatype MenuItem =
    Plus1m | Minus1m | Plus5m | Minus5m | Plus30m | Minus30m | Plus1h | Minus1h
  | ResetDefault

fun clicked :: "Json \<Rightarrow> MenuItem \<Rightarrow> State \<Rightarrow> State" where
  "clicked J Plus1m st = adjust J 1 st"
| "clicked J Minus1m st = adjust J (- 1) st"
| "clicked J Plus5m st = adjust J 5 st"
| "clicked J Minus5m st = adjust J (- 5) st"
| "clicked J Plus30m st = adjust J 30 st"
| "clicked J Minus30m st = adjust J (- 30) st"
| "clicked J Plus1h st = adjust J 60 st"
| "clicked J Minus1h st = adjust J (- 60) st"
| "clicked J ResetDefault st = updateInterval J defaultInterval st"

text \<open>
  One tick of the loop. The first half sets the tooltip and the countdown title, the second
  half decides whether to start a delivery; each half reads the clock on its own. A tick is
  one step of the model: the statements of a delivery goroutine run before or after it, not
  in between.
\<close>

definition tick_display :: "int \<Rightarrow> State \<Rightarrow> State" where
  "tick_display now st =
     (if isMessageShowing st
      then st\<lparr>tooltip := baseTooltip, countdownTitle := ''Countdown:''\<rparr>
      else
        (let intervalMinutes = IntervalMinutes (cfg st);
             last = lastTriggeredUnix st;
             nextTrigger = Add last (wrap64 (intervalMinutes * Minute));
             remaining = Until now nextTrigger
         in if remaining \<le> 0
            then st\<lparr>tooltip := baseTooltip, countdownTitle := ''Countdown:''\<rparr>
            else
              (let countdown = formatDuration remaining
               in st\<lparr>tooltip := baseTooltip @ '' ('' @ countdown @ '')'',
                      countdownTitle := ''Countdown: '' @ countdown\<rparr>)))"

definition tick_trigger :: "int \<Rightarrow> State \<Rightarrow> State" where
  "tick_trigger now st =
     (let last = lastTriggeredUnix st;
          intervalMinutes = IntervalMinutes (cfg st)
      in if Since now last \<ge> wrap64 (intervalMinutes * Minute) \<and> \<not> isMessageShowing st
         then
           (let st1 = st\<lparr>isMessageShowing := True\<rparr>;
                title = ReminderTitle (cfg st1);
                message = ReminderMessage (cfg st1)
            in st1\<lparr>spawned := spawned st1 @ [(title, message)]\<rparr>)
         else st)"

definition tick :: "int \<Rightarrow> int \<Rightarrow> State \<Rightarrow> State" where
  "tick now1 now2 st = tick_trigger now2 (tick_display now1 st)"

text \<open>
  The delivery goroutine, statement by statement: \<open>pc\<close> is the statement it executes next.
  \<open>push\<close> is the result of the toast, \<open>now\<close> the clock when the step runs.
\<close>

datatype pc = AtShowToast | AtShowMessage | AtStoreFlag | AtStoreLast | Finished

fun delivery_step :: "string \<Rightarrow> string \<Rightarrow> error option \<Rightarrow> int \<Rightarrow> pc \<times> State \<Rightarrow> pc \<times> State" where
  "delivery_step tit msg push now (AtShowToast, st) =
     (case showToast push tit msg (world st) of
        (Some err, w) \<Rightarrow> (AtShowMessage, st\<lparr>world := w\<rparr>)
      | (None, w) \<Rightarrow> (AtStoreFlag, st\<lparr>world := w\<rparr>))"
| "delivery_step tit msg push now (AtShowMessage, st) =
     (AtStoreFlag, st\<lparr>world := showMessage tit msg (world st)\<rparr>)"
| "delivery_step tit msg push now (AtStoreFlag, st) =
     (AtStoreLast, st\<lparr>isMessageShowing := False\<rparr>)"
| "delivery_step tit msg push now (AtStoreLast, st) =
     (Finished, st\<lparr>lastTriggeredUnix := now\<rparr>)"
| "delivery_step tit msg push now (Finished, st) = (Finished, st)"

text \<open>The goroutine run from its first statement to its last without interruption.\<close>

definition delivery :: "string \<Rightarrow> string \<Rightarrow> error option \<Rightarrow> int \<Rightarrow> State \<Rightarrow> State" where
  "delivery tit msg push now st =
     (let (err, w) = showToast push tit msg (world st);
          w = (if err \<noteq> None then showMessage tit msg w else w);
          st = st\<lparr>world := w\<rparr>;
          st = st\<lparr>isMessageShowing := False\<rparr>
      in st\<lparr>lastTriggeredUnix := now\<rparr>)"

text \<open>
  The start of \<open>onReady\<close>: the configuration is loaded, the interval title shows it, and
  the clock state starts at the current time with no message showing.
\<close>

definition onReady :: "Json \<Rightarrow> int \<Rightarrow> World \<Rightarrow> State" where
  "onReady J now w0 =
     (let (c, w) = loadConfig J w0;
          intervalDuration = wrap64 (IntervalMinutes c * Minute)
      in \<lparr>cfg = c, lastTriggeredUnix = now, isMessageShowing = False,
          tooltip = baseTooltip, countdownTitle = ''Countdown:'',
          intervalTitle = ''Interval: '' @ formatDuration intervalDuration,
          spawned = [], world = w\<rparr>)"

section \<open>The states the application reaches\<close>

text \<open>
  The application starts with \<open>onReady\<close>; from then on the event loop takes ticks and
  menu clicks, and delivery goroutines execute their statements in between. The relation
  allows any statement of a goroutine at any time, which is more than the program does.
\<close>

inductive reachable :: "Json \<Rightarrow> State \<Rightarrow> bool" for J :: Json where
  start: "reachable J (onReady J now w)"
| ticked: "reachable J st \<Longrightarrow> reachable J (tick now1 now2 st)"
| click: "reachable J st \<Longrightarrow> reachable J (clicked J item st)"
| goroutine: "reachable J st \<Longrightarrow> reachable J (snd (delivery_step tit msg push now (p, st)))"

section \<open>A codec and a world for concrete instances\<close>

text \<open>
  The theorems below hold for every codec. Where one is evaluated on a concrete input, the
  codec is this one: it decodes two texts and encodes a Config as one line.
\<close>

definition exampleJson :: Json where
  "exampleJson =
     \<lparr>Unmarshal = (\<lambda>data.
        if data = ''interval_minutes: 99999''
        then Some \<lparr>IntervalMinutes = 99999, ReminderTitle = '''', ReminderMessage = ''''\<rparr>
        else if data = ''interval_minutes: 7, reminder_title: Move, reminder_message: Stand up''
        then Some \<lparr>IntervalMinutes = 7, ReminderTitle = ''Move'', ReminderMessage = ''Stand up''\<rparr>
        else None),
      MarshalIndent = (\<lambda>c. Some (''interval_minutes: '' @ Sprintf_d (IntervalMinutes c)
        @ '', reminder_title: '' @ ReminderTitle c
        @ '', reminder_message: '' @ ReminderMessage c))\<rparr>"

definition exampleWorld :: "string option \<Rightarrow> World" where
  "exampleWorld content =
     \<lparr>settings = content, writable = True, writeLog = [], printed = [], toasts = [], boxes = []\<rparr>"

definition exampleState :: "int \<Rightarrow> int \<Rightarrow> bool \<Rightarrow> State" where
  "exampleState interval lastTriggered showing =
     \<lparr>cfg = \<lparr>IntervalMinutes = interval, ReminderTitle = ''Posture Reminder'',
             ReminderMessage = ''Time to check your posture!''\<rparr>,
      lastTriggeredUnix = lastTriggered, isMessageShowing = showing,
      tooltip = baseTooltip, countdownTitle = ''Countdown:'',
      intervalTitle = ''Interval: '' @ formatDuration (wrap64 (interval * Minute)),
      spawned = [], world = exampleWorld None\<rparr>"

section \<open>Arithmetic of the machine integers\<close>

lemma wrap64_id: "int64 x \<Longrightarrow> wrap64 x = x"
  by (simp add: int64_def wrap64_def)

lemma wrap64_over: "2 ^ 63 \<le> x \<Longrightarrow> x < 2 ^ 63 + 2 ^ 64 \<Longrightarrow> wrap64 x = x - 2 ^ 64"
proof -
  assume a: "2 ^ 63 \<le> x" "x < 2 ^ 63 + 2 ^ 64"
  have "(x + 2 ^ 63) mod 2 ^ 64 = x + 2 ^ 63 - 2 ^ 64"
    using a by (intro int_mod_pos_eq [where q = 1]) simp_all
  then show ?thesis by (simp add: wrap64_def)
qed

lemma wrap64_wrap64_add: "wrap64 (wrap64 a + b) = wrap64 (a + b)"
proof -
  have "((a + 2 ^ 63) mod 2 ^ 64 - 2 ^ 63 + b + 2 ^ 63) mod 2 ^ 64 = (a + b + 2 ^ 63) mod (2 ^ 64 :: int)"
  proof -
    have "((a + 2 ^ 63) mod 2 ^ 64 + b) mod 2 ^ 64 = (a + 2 ^ 63 + b) mod (2 ^ 64 :: int)"
      by (rule mod_add_left_eq)
    then show ?thesis by (simp add: algebra_simps)
  qed
  then show ?thesis by (simp add: wrap64_def algebra_simps)
qed

lemma smod_nonneg: "0 \<le> d \<Longrightarrow> 0 < m \<Longrightarrow> d smod m = d mod (m::int)"
  by (cases "d = 0") (simp_all add: signed_modulo_int_def)

lemma sdiv_nonneg: "0 \<le> d \<Longrightarrow> 0 < m \<Longrightarrow> d sdiv m = d div (m::int)"
  by (cases "d = 0") (simp_all add: signed_divide_int_def)

lemma smod_neg: "d < 0 \<Longrightarrow> 0 < m \<Longrightarrow> d smod m = - ((- d) mod (m::int))"
  by (simp add: signed_modulo_int_def)

lemma sdiv_neg: "d < 0 \<Longrightarrow> 0 < m \<Longrightarrow> d sdiv m = - ((- d) div (m::int))"
  by (simp add: signed_divide_int_def)

lemma lessThanHalf_Second:
  assumes "0 \<le> r" "r < 1000000000"
  shows "lessThanHalf r Second \<longleftrightarrow> 2 * r < 1000000000"
proof -
  have "uint64 r = r" using assms by (simp add: uint64_def)
  moreover have "uint64 (r + r) = r + r" using assms by (simp add: uint64_def)
  moreover have "uint64 Second = 1000000000" by (simp add: uint64_def Second_def)
  ultimately show ?thesis by (simp add: lessThanHalf_def)
qed

lemma Round_Second_nonneg:
  assumes "0 \<le> d" "d < 2 ^ 63"
  shows "Round d Second =
           (if 2 * (d mod 1000000000) < 1000000000 then d - d mod 1000000000
            else if d + 1000000000 - d mod 1000000000 < 2 ^ 63
                 then d + 1000000000 - d mod 1000000000
                 else maxDuration)"
proof -
  define r where "r = d mod 1000000000"
  have r: "0 \<le> r" "r < 1000000000" "r \<le> d"
    using assms by (simp_all add: r_def zmod_le_nonneg_dividend)
  have sm: "d smod Second = r"
    using assms by (simp add: smod_nonneg Second_def r_def)
  have lt: "lessThanHalf r Second \<longleftrightarrow> 2 * r < 1000000000"
    using r(1,2) by (rule lessThanHalf_Second)
  have w1: "wrap64 (d - r) = d - r"
    using assms r by (intro wrap64_id) (simp add: int64_def)
  have w2: "wrap64 (wrap64 (d + Second) - r) = wrap64 (d + 1000000000 - r)"
    using wrap64_wrap64_add [of "d + Second" "- r"] by (simp add: Second_def)
  have w3: "wrap64 (d + 1000000000 - r) = d + 1000000000 - r" if "d + 1000000000 - r < 2 ^ 63"
    using assms r that by (intro wrap64_id) (simp add: int64_def)
  have w4: "wrap64 (d + 1000000000 - r) = d + 1000000000 - r - 2 ^ 64" if "\<not> d + 1000000000 - r < 2 ^ 63"
    using assms r that by (intro wrap64_over) simp_all
  have pos: "\<not> Second \<le> 0" by (simp add: Second_def)
  have R: "Round d Second =
      (if lessThanHalf r Second then wrap64 (d - r)
       else if wrap64 (wrap64 (d + Second) - r) > d then wrap64 (wrap64 (d + Second) - r) else maxDuration)"
    unfolding Round_def Let_def sm using assms(1) pos by simp
  show ?thesis
  proof (cases "2 * r < 1000000000")
    case True
    then show ?thesis
      unfolding R r_def [symmetric] using lt w1 by simp
  next
    case False
    show ?thesis
    proof (cases "d + 1000000000 - r < 2 ^ 63")
      case True
      have "d < d + 1000000000 - r" using r by simp
      then show ?thesis
        unfolding R r_def [symmetric] w2 using lt False True w3 by simp
    next
      case F2: False
      have "\<not> d < d + 1000000000 - r - 2 ^ 64" using r by simp
      then show ?thesis
        unfolding R r_def [symmetric] w2 using lt False F2 w4 by simp
    qed
  qed
qed

lemma Round_Second_neg:
  assumes "- (2 ^ 63) \<le> d" "d < 0"
  shows "Round d Second \<le> 0"
proof -
  define r where "r = (- d) mod 1000000000"
  have r: "0 \<le> r" "r < 1000000000" "r \<le> - d"
    using assms by (simp_all add: r_def zmod_le_nonneg_dividend)
  have sm: "d smod Second = - r"
    using assms by (simp add: smod_neg Second_def r_def)
  have w0: "wrap64 r = r"
    using r by (intro wrap64_id) (simp add: int64_def)
  have w1: "wrap64 (d + r) = d + r"
    using assms r by (intro wrap64_id) (simp add: int64_def)
  have pos: "\<not> Second \<le> 0" by (simp add: Second_def)
  have R: "Round d Second =
      (if lessThanHalf r Second then d + r
       else if wrap64 (wrap64 (d - Second) + r) < d then wrap64 (wrap64 (d - Second) + r)
            else minDuration)"
    unfolding Round_def Let_def sm using assms(2) pos w0 w1 by simp
  show ?thesis
    unfolding R using assms r by (simp add: minDuration_def)
qed

lemma toInt_Seconds: "toInt (Seconds x) = x sdiv Second"
proof (cases "0 \<le> x")
  case True
  define q r where "q = x div 1000000000" and "r = x mod 1000000000"
  have r: "0 \<le> r" "r < 1000000000" by (simp_all add: r_def)
  have S: "Seconds x = of_int q + of_int r / 1000000000"
    using True by (simp add: Seconds_def Let_def sdiv_nonneg smod_nonneg Second_def q_def r_def)
  have f: "0 \<le> (of_int r :: real) / 1000000000" "(of_int r :: real) / 1000000000 < 1"
    using r by simp_all
  have "0 \<le> q" using True by (simp add: q_def pos_imp_zdiv_nonneg_iff)
  then have nn: "\<not> Seconds x < 0" using f unfolding S by (simp add: add_nonneg_nonneg)
  have "\<lfloor>of_int q + (of_int r :: real) / 1000000000\<rfloor> = q"
    using f by (intro floor_unique) simp_all
  then show ?thesis
    using nn True by (simp add: toInt_def S sdiv_nonneg Second_def q_def)
next
  case False
  then have neg: "x < 0" by simp
  define q r where "q = (- x) div 1000000000" and "r = (- x) mod 1000000000"
  have r: "0 \<le> r" "r < 1000000000" by (simp_all add: r_def)
  have S: "Seconds x = - (of_int q + of_int r / 1000000000)"
    using neg by (simp add: Seconds_def Let_def sdiv_neg smod_neg Second_def q_def r_def)
  have f: "0 \<le> (of_int r :: real) / 1000000000" "(of_int r :: real) / 1000000000 < 1"
    using r by simp_all
  have q: "0 \<le> q" using neg by (simp add: q_def pos_imp_zdiv_nonneg_iff)
  have fl: "\<lfloor>of_int q + (of_int r :: real) / 1000000000\<rfloor> = q"
    using f by (intro floor_unique) simp_all
  have ce: "\<lceil>- (of_int q + (of_int r :: real) / 1000000000)\<rceil> = - q"
    using f by (intro ceiling_unique) simp_all
  show ?thesis
  proof (cases "Seconds x < 0")
    case True
    then show ?thesis using neg ce by (simp add: toInt_def S sdiv_neg Second_def q_def)
  next
    case F: False
    have "0 \<le> of_int q + (of_int r :: real) / 1000000000"
      using q f by (simp add: add_nonneg_nonneg)
    with F have z: "of_int q + (of_int r :: real) / 1000000000 = 0" unfolding S by simp
    with fl have "q = 0" by simp
    then show ?thesis using F neg z by (simp add: toInt_def S sdiv_neg Second_def q_def)
  qed
qed

section \<open>The total of whole seconds\<close>

lemma totalSeconds_eq: "totalSeconds d = max 0 (Round d Second sdiv Second)"
  by (simp add: totalSeconds_def Let_def toInt_Seconds max_def)

lemma totalSeconds_nonneg: "0 \<le> totalSeconds d"
  by (simp add: totalSeconds_eq)

lemma formatDuration_render: "formatDuration d = render_hms (totalSeconds d)"
proof -
  have t: "0 \<le> totalSeconds d" by (rule totalSeconds_nonneg)
  then have "0 \<le> totalSeconds d div 60" by (simp add: pos_imp_zdiv_nonneg_iff)
  with t show ?thesis
    by (simp add: formatDuration_def render_hms_def Let_def sdiv_nonneg smod_nonneg)
qed

lemma div_round_down:
  assumes "0 \<le> d" "2 * (d mod 1000000000) < 1000000000"
  shows "(d - d mod 1000000000) div 1000000000 = (d + 500000000) div (1000000000 :: int)"
proof -
  define q r where "q = d div 1000000000" and "r = d mod 1000000000"
  have d: "d = 1000000000 * q + r" by (simp add: q_def r_def)
  have r: "0 \<le> r" by (simp add: r_def)
  have r2: "2 * r < 1000000000" using assms(2) by (simp add: r_def)
  have a: "(d - r) div 1000000000 = q"
    by (rule int_div_pos_eq [where r = 0]) (simp_all add: d)
  have b: "(d + 500000000) div 1000000000 = q"
    using r r2 by (intro int_div_pos_eq [where r = "r + 500000000"]) (simp_all add: d)
  show ?thesis using a b by (simp add: r_def)
qed

lemma div_round_up:
  assumes "0 \<le> d" "\<not> 2 * (d mod 1000000000) < 1000000000"
  shows "(d + 1000000000 - d mod 1000000000) div 1000000000 = (d + 500000000) div (1000000000 :: int)"
proof -
  define q r where "q = d div 1000000000" and "r = d mod 1000000000"
  have d: "d = 1000000000 * q + r" by (simp add: q_def r_def)
  have r: "r < 1000000000" by (simp add: r_def)
  have r2: "\<not> 2 * r < 1000000000" using assms(2) by (simp add: r_def)
  have a: "(d + 1000000000 - r) div 1000000000 = q + 1"
    by (rule int_div_pos_eq [where r = 0]) (simp_all add: d)
  have b: "(d + 500000000) div 1000000000 = q + 1"
    using r r2 by (intro int_div_pos_eq [where r = "r - 500000000"]) (simp_all add: d)
  show ?thesis using a b by (simp add: r_def)
qed

lemma totalSeconds_of_Round:
  assumes "Round d Second = x" "0 \<le> x"
  shows "totalSeconds d = x div 1000000000"
proof -
  have "x sdiv Second = x div 1000000000"
    using assms(2) by (simp add: sdiv_nonneg Second_def)
  moreover have "0 \<le> x div 1000000000"
    using assms(2) by (simp add: pos_imp_zdiv_nonneg_iff)
  ultimately show ?thesis
    unfolding totalSeconds_eq assms(1) by simp
qed

lemma totalSeconds_closed:
  assumes "int64 d"
  shows "totalSeconds d =
           (if d < 0 then 0
            else if d + 500000000 \<le> maxDuration then (d + 500000000) div 1000000000
            else 9223372036)"
proof (cases "d < 0")
  case True
  have "Round d Second \<le> 0"
    using assms True by (intro Round_Second_neg) (simp_all add: int64_def)
  then have "Round d Second sdiv Second \<le> 0"
    by (cases "Round d Second = 0")
       (simp_all add: sdiv_neg Second_def pos_imp_zdiv_nonneg_iff)
  then show ?thesis using True by (simp add: totalSeconds_eq)
next
  case False
  then have d: "0 \<le> d" "d < 2 ^ 63" using assms by (simp_all add: int64_def)
  define r where "r = d mod 1000000000"
  have r: "0 \<le> r" "r < 1000000000" "r \<le> d"
    using d by (simp_all add: r_def zmod_le_nonneg_dividend)
  note R = Round_Second_nonneg [OF d, folded r_def]
  show ?thesis
  proof (cases "2 * r < 1000000000")
    case True
    have eq: "Round d Second = d - r" using True R by simp
    have nn: "0 \<le> d - r" using r by simp
    show ?thesis
    proof (cases "d + 500000000 \<le> maxDuration")
      case le: True
      have "(d - r) div 1000000000 = (d + 500000000) div 1000000000"
        using div_round_down [OF d(1)] True by (simp add: r_def)
      then show ?thesis
        using False le by (simp add: totalSeconds_of_Round [OF eq nn])
    next
      case gt: False
      then have lo: "9223372036 * 1000000000 \<le> d" by (simp add: maxDuration_def)
      have hi: "d < 9223372037 * 1000000000" using d by simp
      have q: "d div 1000000000 = 9223372036"
        using lo hi by (intro int_div_pos_eq [where r = "d - 9223372036 * 1000000000"]) simp_all
      have "d - r = 1000000000 * (d div 1000000000)"
        by (simp add: r_def minus_mod_eq_mult_div)
      then have "(d - r) div 1000000000 = 9223372036" using q by simp
      then show ?thesis
        using False gt by (simp add: totalSeconds_of_Round [OF eq nn])
    qed
  next
    case F: False
    show ?thesis
    proof (cases "d + 1000000000 - r < 2 ^ 63")
      case True
      have eq: "Round d Second = d + 1000000000 - r" using True F R by simp
      have nn: "0 \<le> d + 1000000000 - r" using r by simp
      have dq: "d = 1000000000 * (d div 1000000000) + r" by (simp add: r_def)
      have "1000000000 * (d div 1000000000) + 1000000000 < 2 ^ 63" using True dq by simp
      then have "d div 1000000000 \<le> 9223372035" by simp
      then have "d \<le> 1000000000 * 9223372035 + r" using dq by simp
      then have m: "d + 500000000 \<le> maxDuration" using r by (simp add: maxDuration_def)
      have "(d + 1000000000 - r) div 1000000000 = (d + 500000000) div 1000000000"
        using div_round_up [OF d(1)] F by (simp add: r_def)
      then show ?thesis
        using False m by (simp add: totalSeconds_of_Round [OF eq nn])
    next
      case F2: False
      have eq: "Round d Second = maxDuration" using F2 F R by simp
      have dq: "d = 1000000000 * (d div 1000000000) + r" by (simp add: r_def)
      have "\<not> 1000000000 * (d div 1000000000) + 1000000000 < 2 ^ 63" using F2 dq by simp
      then have "9223372036 \<le> d div 1000000000" by simp
      then have "1000000000 * 9223372036 + r \<le> d" using dq by simp
      then have m: "\<not> d + 500000000 \<le> maxDuration" using F by (simp add: maxDuration_def)
      have "0 \<le> maxDuration" by (simp add: maxDuration_def)
      from totalSeconds_of_Round [OF eq this] show ?thesis
        using False m by (simp add: maxDuration_def)
    qed
  qed
qed

section \<open>formatDuration: the rendered text\<close>

lemma render_3661: "render_hms 3661 = ''1h 1m 1s''"
  by (simp add: render_hms_def Sprintf_d_def digits.simps)

lemma render_0: "render_hms 0 = ''0h 0m 0s''"
  by (simp add: render_hms_def Sprintf_d_def digits.simps)

lemma render_sat: "render_hms 9223372036 = ''2562047h 47m 16s''"
  by (simp add: render_hms_def Sprintf_d_def digits.simps)

lemma render_sat1: "render_hms 9223372037 = ''2562047h 47m 17s''"
  by (simp add: render_hms_def Sprintf_d_def digits.simps)

lemma nearestSecond_nonneg: "0 \<le> d \<Longrightarrow> nearestSecond d = (d + 500000000) div 1000000000"
  by (cases "d = 0") (simp_all add: nearestSecond_def)

lemma nearestSecond_neg: "d < 0 \<Longrightarrow> nearestSecond d \<le> 0"
  by (simp add: nearestSecond_def pos_imp_zdiv_nonneg_iff)

lemma totalSeconds_nearest:
  assumes "int64 d" "d < 9223372036500000000"
  shows "totalSeconds d = max 0 (nearestSecond d)"
proof (cases "d < 0")
  case True
  then show ?thesis
    using assms nearestSecond_neg [OF True] by (simp add: totalSeconds_closed)
next
  case False
  show ?thesis
  proof (cases "d + 500000000 \<le> maxDuration")
    case True
    have "0 \<le> (d + 500000000) div 1000000000"
      using False by (simp add: pos_imp_zdiv_nonneg_iff)
    then show ?thesis
      using assms False True by (simp add: totalSeconds_closed nearestSecond_nonneg)
  next
    case gap: False
    then have lo: "9223372036 * 1000000000 \<le> d + 500000000" by (simp add: maxDuration_def)
    have hi: "d + 500000000 < 9223372037 * 1000000000" using assms(2) by simp
    have "(d + 500000000) div 1000000000 = 9223372036"
      using lo hi
      by (intro int_div_pos_eq [where r = "d + 500000000 - 9223372036 * 1000000000"]) simp_all
    then show ?thesis
      using assms False gap by (simp add: totalSeconds_closed nearestSecond_nonneg)
  qed
qed

lemma Round_Second_saturates:
  assumes "9223372036500000000 \<le> d" "d < 2 ^ 63"
  shows "Round d Second = maxDuration"
proof -
  have nn: "0 \<le> d" using assms(1) by simp
  have m: "d mod 1000000000 = d - 9223372036000000000"
    using assms by (intro int_mod_pos_eq [where q = 9223372036]) simp_all
  show ?thesis
    unfolding Round_Second_nonneg [OF nn assms(2)] m using assms by simp
qed

lemma nearestSecond_top:
  assumes "9223372036500000000 \<le> d" "d < 2 ^ 63"
  shows "nearestSecond d = 9223372037"
proof -
  have nn: "0 \<le> d" using assms(1) by simp
  have "(d + 500000000) div 1000000000 = 9223372037"
    using assms
    by (intro int_div_pos_eq [where r = "d + 500000000 - 9223372037 * 1000000000"]) simp_all
  then show ?thesis by (simp add: nearestSecond_nonneg [OF nn])
qed

text \<open>
  C6, as the code has it. For every duration \<open>d\<close> below 9223372036.5 seconds,
  \<open>formatDuration d\<close> is what the specification says: with the total of whole seconds
  rounded to the nearest second and not below zero, hours are the total divided by 3600,
  minutes the total divided by 60 modulo 60, seconds the total modulo 60, printed as
  \<open>"{h}h {m}m {s}s"\<close>. 3661 seconds give \<open>"1h 1m 1s"\<close>, zero and negative durations
  \<open>"0h 0m 0s"\<close>. From 9223372036.5 seconds up to the largest Duration, the nearest second
  is 9223372037, which is no Duration: \<open>Round\<close> returns the largest Duration, the total is
  9223372036 seconds and the text is \<open>"2562047h 47m 16s"\<close>, where the specification's
  formula gives 17 seconds. These are the only durations where the two differ.
\<close>

theorem formatDuration_nearest_second:
  assumes "int64 d"
  shows "(d < 9223372036500000000 \<longrightarrow> formatDuration d = formatDuration_spec d)
       \<and> (9223372036500000000 \<le> d \<longrightarrow>
            Round d Second = maxDuration
            \<and> formatDuration d = ''2562047h 47m 16s''
            \<and> formatDuration_spec d = ''2562047h 47m 17s'')
       \<and> (d \<le> 0 \<longrightarrow> formatDuration d = ''0h 0m 0s'')
       \<and> formatDuration (3661 * Second) = ''1h 1m 1s''"
proof (intro conjI impI)
  assume "d < 9223372036500000000"
  with assms show "formatDuration d = formatDuration_spec d"
    by (simp add: formatDuration_render formatDuration_spec_def totalSeconds_nearest)
next
  assume top: "9223372036500000000 \<le> d"
  have lt: "d < 2 ^ 63" using assms by (simp add: int64_def)
  show "Round d Second = maxDuration"
    using top lt by (rule Round_Second_saturates)
  have "totalSeconds d = 9223372036"
    using assms top by (simp add: totalSeconds_closed maxDuration_def)
  then show "formatDuration d = ''2562047h 47m 16s''"
    by (simp add: formatDuration_render render_sat)
  show "formatDuration_spec d = ''2562047h 47m 17s''"
    by (simp add: formatDuration_spec_def nearestSecond_top [OF top lt] render_sat1)
next
  assume "d \<le> 0"
  then have "totalSeconds d = 0"
    using assms by (simp add: totalSeconds_closed maxDuration_def)
  then show "formatDuration d = ''0h 0m 0s''"
    by (simp add: formatDuration_render render_0)
next
  have "int64 (3661 * Second)" by (simp add: int64_def Second_def)
  then have "totalSeconds (3661 * Second) = 3661"
    by (simp add: totalSeconds_closed maxDuration_def Second_def)
  then show "formatDuration (3661 * Second) = ''1h 1m 1s''"
    by (simp add: formatDuration_render render_3661)
qed

theorem formatDuration_nearest_second_witness:
  "int64 3661000000000 \<and> (3661000000000 :: int) < 9223372036500000000
     \<and> formatDuration 3661000000000 = formatDuration_spec 3661000000000
     \<and> formatDuration_spec 3661000000000 = ''1h 1m 1s''
     \<and> int64 (- 5) \<and> (- 5 :: int) \<le> 0 \<and> formatDuration (- 5) = ''0h 0m 0s''
     \<and> int64 9223372036499999999 \<and> (9223372036499999999 :: int) < 9223372036500000000
     \<and> formatDuration 9223372036499999999 = formatDuration_spec 9223372036499999999
     \<and> formatDuration_spec 9223372036499999999 = ''2562047h 47m 16s''
     \<and> int64 9223372036500000000 \<and> (9223372036500000000 :: int) \<le> 9223372036500000000
     \<and> Round 9223372036500000000 Second = maxDuration
     \<and> formatDuration 9223372036500000000 = ''2562047h 47m 16s''
     \<and> formatDuration_spec 9223372036500000000 = ''2562047h 47m 17s''"
proof -
  have a: "int64 3661000000000" "int64 (- 5)" "int64 9223372036499999999"
    "int64 9223372036500000000"
    by (simp_all add: int64_def)
  have b: "(3661000000000 :: int) < 9223372036500000000"
    "(9223372036499999999 :: int) < 9223372036500000000"
    "(9223372036500000000 :: int) \<le> 9223372036500000000"
    by simp_all
  have c: "formatDuration_spec 3661000000000 = ''1h 1m 1s''"
    by (simp add: formatDuration_spec_def nearestSecond_def render_3661)
  have e: "formatDuration_spec 9223372036499999999 = ''2562047h 47m 16s''"
    by (simp add: formatDuration_spec_def nearestSecond_def render_sat)
  have n: "(- 5 :: int) \<le> 0" by simp
  have r1: "formatDuration 3661000000000 = formatDuration_spec 3661000000000"
    using formatDuration_nearest_second [OF a(1)] b(1) by blast
  have r2: "formatDuration (- 5) = ''0h 0m 0s''"
    using formatDuration_nearest_second [OF a(2)] n by blast
  have r3: "formatDuration 9223372036499999999 = formatDuration_spec 9223372036499999999"
    using formatDuration_nearest_second [OF a(3)] b(2) by blast
  have r4: "Round 9223372036500000000 Second = maxDuration"
    "formatDuration 9223372036500000000 = ''2562047h 47m 16s''"
    "formatDuration_spec 9223372036500000000 = ''2562047h 47m 17s''"
    using formatDuration_nearest_second [OF a(4)] b(3) by blast+
  show ?thesis
    by (intro conjI a b c e n r1 r2 r3 r4)
qed

text \<open>
  The largest Duration is 9223372036.854775807 seconds. The nearest second is 9223372037,
  which the specification's formula prints with 17 seconds; the code prints 16.
\<close>

theorem formatDuration_saturation_counterexample:
  "int64 maxDuration
     \<and> formatDuration maxDuration = ''2562047h 47m 16s''
     \<and> formatDuration_spec maxDuration = ''2562047h 47m 17s''
     \<and> formatDuration maxDuration \<noteq> formatDuration_spec maxDuration"
proof -
  have i: "int64 maxDuration" by (simp add: int64_def maxDuration_def)
  have "totalSeconds maxDuration = 9223372036"
    using i by (simp add: totalSeconds_closed) (simp add: maxDuration_def)
  then have f: "formatDuration maxDuration = ''2562047h 47m 16s''"
    by (simp add: formatDuration_render render_sat)
  have "nearestSecond maxDuration = 9223372037"
    by (simp add: nearestSecond_def maxDuration_def)
  then have s: "formatDuration_spec maxDuration = ''2562047h 47m 17s''"
    by (simp add: formatDuration_spec_def render_sat1)
  show ?thesis using i f s by simp
qed

lemma render_100h: "render_hms 360000 = ''100h 0m 0s''"
  by (simp add: render_hms_def Sprintf_d_def digits.simps)

lemma totalSeconds_day:
  assumes "int64 d" "24 * 3600 * Second \<le> d"
  shows "86400 \<le> totalSeconds d"
proof -
  have d: "86400000000000 \<le> d" using assms(2) by (simp add: Second_def)
  then have "86400000000000 \<le> d + 500000000" by simp
  then have "86400000000000 div 1000000000 \<le> (d + 500000000) div 1000000000"
    by (rule zdiv_mono1) simp
  then have "86400 \<le> (d + 500000000) div 1000000000" by simp
  then show ?thesis
    using assms(1) d by (simp add: totalSeconds_closed)
qed

text \<open>
  C10. For every duration, the text is built from an hours, a minutes and a seconds
  component; minutes and seconds lie between 0 and 59, no component is negative, and hours
  are the whole quotient by 3600 with no upper limit: from 24 hours on the hours component is
  24 or more, and 100 hours print as \<open>"100h 0m 0s"\<close>.
\<close>

theorem formatDuration_components:
  "formatDuration d =
      Sprintf_d (totalSeconds d sdiv 3600) @ ''h ''
        @ Sprintf_d ((totalSeconds d sdiv 60) smod 60) @ ''m ''
        @ Sprintf_d (totalSeconds d smod 60) @ ''s''
   \<and> 0 \<le> totalSeconds d sdiv 3600
   \<and> 0 \<le> (totalSeconds d sdiv 60) smod 60 \<and> (totalSeconds d sdiv 60) smod 60 \<le> 59
   \<and> 0 \<le> totalSeconds d smod 60 \<and> totalSeconds d smod 60 \<le> 59
   \<and> (int64 d \<and> 24 * 3600 * Second \<le> d \<longrightarrow> 24 \<le> totalSeconds d sdiv 3600)
   \<and> formatDuration (100 * 3600 * Second) = ''100h 0m 0s''"
proof -
  have t: "0 \<le> totalSeconds d" by (rule totalSeconds_nonneg)
  then have t60: "0 \<le> totalSeconds d div 60" by (simp add: pos_imp_zdiv_nonneg_iff)
  have h: "totalSeconds d sdiv 3600 = totalSeconds d div 3600"
    using t by (simp add: sdiv_nonneg)
  have m: "(totalSeconds d sdiv 60) smod 60 = (totalSeconds d div 60) mod 60"
    using t t60 by (simp add: sdiv_nonneg smod_nonneg)
  have s: "totalSeconds d smod 60 = totalSeconds d mod 60"
    using t by (simp add: smod_nonneg)
  have 1: "formatDuration d =
      Sprintf_d (totalSeconds d sdiv 3600) @ ''h ''
        @ Sprintf_d ((totalSeconds d sdiv 60) smod 60) @ ''m ''
        @ Sprintf_d (totalSeconds d smod 60) @ ''s''"
    by (simp add: formatDuration_def Let_def)
  have 2: "0 \<le> totalSeconds d sdiv 3600"
    unfolding h using t by (simp add: pos_imp_zdiv_nonneg_iff)
  have 3: "0 \<le> (totalSeconds d sdiv 60) smod 60" "(totalSeconds d sdiv 60) smod 60 \<le> 59"
    unfolding m by simp_all
  have 4: "0 \<le> totalSeconds d smod 60" "totalSeconds d smod 60 \<le> 59"
    unfolding s by simp_all
  have 5: "24 \<le> totalSeconds d sdiv 3600" if "int64 d \<and> 24 * 3600 * Second \<le> d"
  proof -
    have "86400 \<le> totalSeconds d" using that by (simp add: totalSeconds_day)
    then have "86400 div 3600 \<le> totalSeconds d div 3600" by (rule zdiv_mono1) simp
    then show ?thesis unfolding h by simp
  qed
  have "int64 (100 * 3600 * Second)" by (simp add: int64_def Second_def)
  then have "totalSeconds (100 * 3600 * Second) = 360000"
    by (simp add: totalSeconds_closed maxDuration_def Second_def)
  then have 6: "formatDuration (100 * 3600 * Second) = ''100h 0m 0s''"
    by (simp add: formatDuration_render render_100h)
  show ?thesis
    using 1 2 3 4 5 6 by blast
qed

theorem formatDuration_components_witness:
  "int64 (25 * 3600 * Second) \<and> 24 * 3600 * Second \<le> 25 * 3600 * Second
     \<and> 24 \<le> totalSeconds (25 * 3600 * Second) sdiv 3600
     \<and> totalSeconds (25 * 3600 * Second) = 90000"
proof -
  have a: "int64 (25 * 3600 * Second)" by (simp add: int64_def Second_def)
  have b: "24 * 3600 * Second \<le> 25 * 3600 * Second" by (simp add: Second_def)
  have c: "24 \<le> totalSeconds (25 * 3600 * Second) sdiv 3600"
    using formatDuration_components [of "25 * 3600 * Second"] a b by blast
  have d: "totalSeconds (25 * 3600 * Second) = 90000"
    using a by (simp add: totalSeconds_closed maxDuration_def Second_def)
  show ?thesis by (intro conjI a b c d)
qed

section \<open>The settings store\<close>

text \<open>What a call of saveConfig followed by the caller's warning leaves behind.\<close>

lemma saved_writeLog:
  assumes "MarshalIndent J c = Some data"
  shows "writeLog (case saveConfig J c w of (Some e, w') \<Rightarrow> Printf line w' | (None, w') \<Rightarrow> w')
           = writeLog w @ [data]"
  using assms
  by (simp add: saveConfig_def WriteFile_def Let_def Printf_def split: option.splits)

lemma saved_settings:
  assumes "MarshalIndent J c = Some data" "writable w"
  shows "settings (case saveConfig J c w of (Some e, w') \<Rightarrow> Printf line w' | (None, w') \<Rightarrow> w')
           = Some data"
  using assms
  by (simp add: saveConfig_def WriteFile_def Let_def Printf_def split: option.splits)

lemma saved_quiet:
  "boxes (case saveConfig J c w of (Some e, w') \<Rightarrow> Printf line w' | (None, w') \<Rightarrow> w') = boxes w
   \<and> toasts (case saveConfig J c w of (Some e, w') \<Rightarrow> Printf line w' | (None, w') \<Rightarrow> w') = toasts w"
  by (simp add: saveConfig_def WriteFile_def Let_def Printf_def split: option.splits)

lemma saveDefault_eq:
  "saveDefault J w =
     (defaultCfg, case saveConfig J defaultCfg w of (Some e, w') \<Rightarrow> Printf WarnWriteDefault w' | (None, w') \<Rightarrow> w')"
  by (simp add: saveDefault_def split: prod.splits option.splits)

lemma loadConfig_unreadable:
  "settings w = None \<Longrightarrow> loadConfig J w = saveDefault J w"
  by (simp add: loadConfig_def ReadFile_def)

lemma loadConfig_invalid:
  "settings w = Some data \<Longrightarrow> Unmarshal J data = None \<Longrightarrow>
     loadConfig J w = saveDefault J (Printf WarnInvalidJSON w)"
  by (simp add: loadConfig_def ReadFile_def)

lemma case_pull:
  "(case p of (Some e, w') \<Rightarrow> (x, f w') | (None, w') \<Rightarrow> (x, w'))
     = (x, case p of (Some e, w') \<Rightarrow> f w' | (None, w') \<Rightarrow> w')"
  by (simp split: prod.splits option.splits)

lemma loadConfig_parsed:
  assumes "settings w = Some data" "Unmarshal J data = Some c"
  shows "loadConfig J w =
           (if valid c then (c, w)
            else (sanitized c,
                  case saveConfig J (sanitized c) w of
                    (Some e, w') \<Rightarrow> Printf WarnSaveAdjusted w' | (None, w') \<Rightarrow> w'))"
proof -
  obtain i t m where c: "c = \<lparr>IntervalMinutes = i, ReminderTitle = t, ReminderMessage = m\<rparr>"
    by (cases c) simp
  have L: "loadConfig J w =
      (let c1 = (if i < 1 then 1 else i); n1 = (i < 1);
           c2 = (if c1 > 1440 then 1440 else c1); n2 = (n1 \<or> c1 > 1440);
           t3 = (if t = [] then ''Posture Reminder'' else t); n3 = (n2 \<or> t = []);
           m4 = (if m = [] then ''Time to check your posture!'' else m); n4 = (n3 \<or> m = []);
           c4 = \<lparr>IntervalMinutes = c2, ReminderTitle = t3, ReminderMessage = m4\<rparr>
       in if n4
          then (case saveConfig J c4 w of
                  (Some saveErr, w') \<Rightarrow> (c4, Printf WarnSaveAdjusted w')
                | (None, w') \<Rightarrow> (c4, w'))
          else (c4, w))"
    unfolding loadConfig_def ReadFile_def
    by (simp add: assms c Let_def minInterval_def maxInterval_def
          defaultReminderTitle_def defaultReminderMessage_def)
  have S: "sanitized c =
      \<lparr>IntervalMinutes = (if (if i < 1 then 1 else i) > 1440 then 1440 else (if i < 1 then 1 else i)),
       ReminderTitle = (if t = [] then ''Posture Reminder'' else t),
       ReminderMessage = (if m = [] then ''Time to check your posture!'' else m)\<rparr>"
    by (simp add: sanitized_def c)
  have N: "((((i < 1 \<or> (if i < 1 then 1 else i) > 1440) \<or> t = []) \<or> m = [])) = (\<not> valid c)"
    by (auto simp add: valid_def c)
  have I: "valid c \<Longrightarrow> sanitized c = c"
    by (auto simp add: valid_def sanitized_def c)
  have L2: "loadConfig J w =
      (if \<not> valid c
       then (sanitized c,
             case saveConfig J (sanitized c) w of
               (Some e, w') \<Rightarrow> Printf WarnSaveAdjusted w' | (None, w') \<Rightarrow> w')
       else (sanitized c, w))"
    unfolding L Let_def S [symmetric] N case_pull ..
  show ?thesis
    unfolding L2 using I by simp
qed

lemma defaultCfg_eq:
  "defaultCfg = \<lparr>IntervalMinutes = 3, ReminderTitle = ''Posture Reminder'',
                  ReminderMessage = ''Time to check your posture!''\<rparr>"
  by (simp add: defaultCfg_def defaultInterval_def defaultReminderTitle_def
        defaultReminderMessage_def)

lemma Printf_fields:
  "writeLog (Printf line w) = writeLog w" "settings (Printf line w) = settings w"
  "writable (Printf line w) = writable w" "boxes (Printf line w) = boxes w"
  "toasts (Printf line w) = toasts w"
  by (simp_all add: Printf_def)

text \<open>
  C5. When the settings file cannot be read or its content is not valid JSON, \<open>loadConfig\<close>
  returns exactly the default configuration and saves it: the encoded defaults are passed to
  \<open>os.WriteFile\<close>, and are the content of the file afterwards when the write succeeds.
  The result is a configuration, never an error, and no toast or message box is shown.
\<close>

theorem loadConfig_defaults:
  assumes "settings w = None \<or> (settings w = Some data \<and> Unmarshal J data = None)"
  shows "fst (loadConfig J w) =
           \<lparr>IntervalMinutes = 3, ReminderTitle = ''Posture Reminder'',
            ReminderMessage = ''Time to check your posture!''\<rparr>
       \<and> (MarshalIndent J (fst (loadConfig J w)) = Some out \<longrightarrow>
            writeLog (snd (loadConfig J w)) = writeLog w @ [out]
            \<and> (writable w \<longrightarrow> settings (snd (loadConfig J w)) = Some out))
       \<and> boxes (snd (loadConfig J w)) = boxes w
       \<and> toasts (snd (loadConfig J w)) = toasts w"
proof -
  obtain w0 where w0: "loadConfig J w = saveDefault J w0" "writeLog w0 = writeLog w"
    "writable w0 = writable w" "boxes w0 = boxes w" "toasts w0 = toasts w"
  proof (cases "settings w = None")
    case True
    then show ?thesis using that [of w] by (simp add: loadConfig_unreadable)
  next
    case False
    with assms have "settings w = Some data" "Unmarshal J data = None" by simp_all
    then show ?thesis
      using that [of "Printf WarnInvalidJSON w"] by (simp add: loadConfig_invalid Printf_fields)
  qed
  have f: "fst (loadConfig J w) = defaultCfg"
    by (simp add: w0(1) saveDefault_eq)
  have s: "snd (loadConfig J w) =
      (case saveConfig J defaultCfg w0 of
         (Some e, w') \<Rightarrow> Printf WarnWriteDefault w' | (None, w') \<Rightarrow> w')"
    by (simp add: w0(1) saveDefault_eq)
  have 1: "writeLog (snd (loadConfig J w)) = writeLog w @ [out]"
    if "MarshalIndent J (fst (loadConfig J w)) = Some out"
    using that unfolding f s by (simp add: saved_writeLog w0(2))
  have 2: "settings (snd (loadConfig J w)) = Some out"
    if "MarshalIndent J (fst (loadConfig J w)) = Some out" "writable w"
    using that unfolding f s by (simp add: saved_settings w0(3))
  have 3: "boxes (snd (loadConfig J w)) = boxes w" "toasts (snd (loadConfig J w)) = toasts w"
    unfolding s using saved_quiet [where J = J and c = defaultCfg and w = w0 and line = WarnWriteDefault] by (simp_all add: w0)
  show ?thesis
    using f 1 2 3 by (simp add: defaultCfg_eq)
qed

lemma exampleJson_marshal_default:
  "MarshalIndent exampleJson
     \<lparr>IntervalMinutes = 3, ReminderTitle = ''Posture Reminder'',
      ReminderMessage = ''Time to check your posture!''\<rparr>
   = Some ''interval_minutes: 3, reminder_title: Posture Reminder, reminder_message: Time to check your posture!''"
  by (simp add: exampleJson_def Sprintf_d_def digits.simps)

theorem loadConfig_defaults_witness:
  "settings (exampleWorld None) = None
   \<and> settings (exampleWorld (Some ''{'')) = Some ''{'' \<and> Unmarshal exampleJson ''{'' = None
   \<and> writable (exampleWorld None)
   \<and> fst (loadConfig exampleJson (exampleWorld None)) =
        \<lparr>IntervalMinutes = 3, ReminderTitle = ''Posture Reminder'',
         ReminderMessage = ''Time to check your posture!''\<rparr>
   \<and> fst (loadConfig exampleJson (exampleWorld (Some ''{''))) =
        \<lparr>IntervalMinutes = 3, ReminderTitle = ''Posture Reminder'',
         ReminderMessage = ''Time to check your posture!''\<rparr>
   \<and> settings (snd (loadConfig exampleJson (exampleWorld None))) =
        Some ''interval_minutes: 3, reminder_title: Posture Reminder, reminder_message: Time to check your posture!''"
proof -
  have a: "settings (exampleWorld None) = None" "writable (exampleWorld None)"
    by (simp_all add: exampleWorld_def)
  have b: "settings (exampleWorld (Some ''{'')) = Some ''{''" "Unmarshal exampleJson ''{'' = None"
    by (simp_all add: exampleWorld_def exampleJson_def)
  note t1 = loadConfig_defaults [of "exampleWorld None" "''{''" exampleJson
      "''interval_minutes: 3, reminder_title: Posture Reminder, reminder_message: Time to check your posture!''"]
  note t2 = loadConfig_defaults [of "exampleWorld (Some ''{'')" "''{''" exampleJson "''''"]
  have c: "fst (loadConfig exampleJson (exampleWorld None)) =
        \<lparr>IntervalMinutes = 3, ReminderTitle = ''Posture Reminder'',
         ReminderMessage = ''Time to check your posture!''\<rparr>"
    using t1 a by blast
  have d: "fst (loadConfig exampleJson (exampleWorld (Some ''{''))) =
        \<lparr>IntervalMinutes = 3, ReminderTitle = ''Posture Reminder'',
         ReminderMessage = ''Time to check your posture!''\<rparr>"
    using t2 b by blast
  have e: "settings (snd (loadConfig exampleJson (exampleWorld None))) =
        Some ''interval_minutes: 3, reminder_title: Posture Reminder, reminder_message: Time to check your posture!''"
    using t1 a exampleJson_marshal_default unfolding c by blast
  show ?thesis by (intro conjI a b c d e)
qed

lemma sanitized_valid: "valid (sanitized c)"
  by (simp add: valid_def sanitized_def)

text \<open>
  C4. When the settings file decodes to a configuration with an interval outside 1 to 1440
  or an empty title or message, \<open>loadConfig\<close> returns the sanitized configuration (interval
  clamped, so 99999 becomes 1440; empty title and message replaced by the defaults) and saves
  it at once: its encoding is passed to \<open>os.WriteFile\<close> and is the content of the file
  afterwards when the write succeeds.
\<close>

theorem loadConfig_sanitizes:
  assumes "settings w = Some data" and "Unmarshal J data = Some c" and "\<not> valid c"
  shows "fst (loadConfig J w) = sanitized c
       \<and> 1 \<le> IntervalMinutes (fst (loadConfig J w))
       \<and> IntervalMinutes (fst (loadConfig J w)) \<le> 1440
       \<and> ReminderTitle (fst (loadConfig J w)) \<noteq> []
       \<and> ReminderMessage (fst (loadConfig J w)) \<noteq> []
       \<and> (IntervalMinutes c = 99999 \<longrightarrow> IntervalMinutes (fst (loadConfig J w)) = 1440)
       \<and> (MarshalIndent J (sanitized c) = Some out \<longrightarrow>
            writeLog (snd (loadConfig J w)) = writeLog w @ [out]
            \<and> (writable w \<longrightarrow> settings (snd (loadConfig J w)) = Some out))"
proof -
  have f: "fst (loadConfig J w) = sanitized c"
    using assms by (simp add: loadConfig_parsed)
  have s: "snd (loadConfig J w) =
      (case saveConfig J (sanitized c) w of
         (Some e, w') \<Rightarrow> Printf WarnSaveAdjusted w' | (None, w') \<Rightarrow> w')"
    using assms by (simp add: loadConfig_parsed)
  have v: "valid (fst (loadConfig J w))"
    unfolding f by (rule sanitized_valid)
  have k: "IntervalMinutes (sanitized c) = 1440" if "IntervalMinutes c = 99999"
    using that by (simp add: sanitized_def)
  have 1: "writeLog (snd (loadConfig J w)) = writeLog w @ [out]"
    if "MarshalIndent J (sanitized c) = Some out"
    unfolding s using that by (rule saved_writeLog)
  have 2: "settings (snd (loadConfig J w)) = Some out"
    if "MarshalIndent J (sanitized c) = Some out" "writable w"
    unfolding s using that by (rule saved_settings)
  show ?thesis
    using f v k 1 2 by (simp add: valid_def)
qed

theorem loadConfig_sanitizes_witness:
  "settings (exampleWorld (Some ''interval_minutes: 99999'')) = Some ''interval_minutes: 99999''
   \<and> Unmarshal exampleJson ''interval_minutes: 99999''
        = Some \<lparr>IntervalMinutes = 99999, ReminderTitle = '''', ReminderMessage = ''''\<rparr>
   \<and> \<not> valid \<lparr>IntervalMinutes = 99999, ReminderTitle = '''', ReminderMessage = ''''\<rparr>
   \<and> fst (loadConfig exampleJson (exampleWorld (Some ''interval_minutes: 99999'')))
        = \<lparr>IntervalMinutes = 1440, ReminderTitle = ''Posture Reminder'',
           ReminderMessage = ''Time to check your posture!''\<rparr>
   \<and> writable (exampleWorld (Some ''interval_minutes: 99999''))
   \<and> settings (snd (loadConfig exampleJson (exampleWorld (Some ''interval_minutes: 99999''))))
        = Some ''interval_minutes: 1440, reminder_title: Posture Reminder, reminder_message: Time to check your posture!''"
proof -
  let ?w = "exampleWorld (Some ''interval_minutes: 99999'')"
  let ?c = "\<lparr>IntervalMinutes = 99999, ReminderTitle = '''', ReminderMessage = ''''\<rparr>"
  let ?out = "''interval_minutes: 1440, reminder_title: Posture Reminder, reminder_message: Time to check your posture!''"
  have a: "settings ?w = Some ''interval_minutes: 99999''" "writable ?w"
    by (simp_all add: exampleWorld_def)
  have b: "Unmarshal exampleJson ''interval_minutes: 99999'' = Some ?c"
    by (simp add: exampleJson_def)
  have c: "\<not> valid ?c" by (simp add: valid_def)
  have d: "sanitized ?c = \<lparr>IntervalMinutes = 1440, ReminderTitle = ''Posture Reminder'',
           ReminderMessage = ''Time to check your posture!''\<rparr>"
    by (simp add: sanitized_def)
  have e: "MarshalIndent exampleJson (sanitized ?c) = Some ?out"
    unfolding d by (simp add: exampleJson_def Sprintf_d_def digits.simps)
  note t = loadConfig_sanitizes [OF a(1) b c, of ?out]
  have f: "fst (loadConfig exampleJson ?w) = \<lparr>IntervalMinutes = 1440,
      ReminderTitle = ''Posture Reminder'', ReminderMessage = ''Time to check your posture!''\<rparr>"
    using t d by simp
  have g: "settings (snd (loadConfig exampleJson ?w)) = Some ?out"
    using t e a(2) by blast
  show ?thesis by (intro conjI a b c f g)
qed

text \<open>
  C9. When the settings file decodes to a configuration that is already valid (interval
  between 1 and 1440, title and message not empty), \<open>loadConfig\<close> returns it unchanged and
  leaves the world as it was: \<open>os.WriteFile\<close> is not called and the file keeps its content.
\<close>

theorem loadConfig_valid_unchanged:
  assumes "settings w = Some data" and "Unmarshal J data = Some c" and "valid c"
  shows "loadConfig J w = (c, w)
       \<and> writeLog (snd (loadConfig J w)) = writeLog w
       \<and> settings (snd (loadConfig J w)) = Some data"
  using assms by (simp add: loadConfig_parsed)

theorem loadConfig_valid_unchanged_witness:
  "settings (exampleWorld (Some ''interval_minutes: 7, reminder_title: Move, reminder_message: Stand up''))
     = Some ''interval_minutes: 7, reminder_title: Move, reminder_message: Stand up''
   \<and> Unmarshal exampleJson ''interval_minutes: 7, reminder_title: Move, reminder_message: Stand up''
        = Some \<lparr>IntervalMinutes = 7, ReminderTitle = ''Move'', ReminderMessage = ''Stand up''\<rparr>
   \<and> valid \<lparr>IntervalMinutes = 7, ReminderTitle = ''Move'', ReminderMessage = ''Stand up''\<rparr>
   \<and> loadConfig exampleJson
        (exampleWorld (Some ''interval_minutes: 7, reminder_title: Move, reminder_message: Stand up''))
      = (\<lparr>IntervalMinutes = 7, ReminderTitle = ''Move'', ReminderMessage = ''Stand up''\<rparr>,
         exampleWorld (Some ''interval_minutes: 7, reminder_title: Move, reminder_message: Stand up''))
   \<and> writeLog (snd (loadConfig exampleJson
        (exampleWorld (Some ''interval_minutes: 7, reminder_title: Move, reminder_message: Stand up''))))
      = []"
proof -
  let ?d = "''interval_minutes: 7, reminder_title: Move, reminder_message: Stand up''"
  let ?c = "\<lparr>IntervalMinutes = 7, ReminderTitle = ''Move'', ReminderMessage = ''Stand up''\<rparr>"
  have a: "settings (exampleWorld (Some ?d)) = Some ?d" by (simp add: exampleWorld_def)
  have b: "Unmarshal exampleJson ?d = Some ?c" by (simp add: exampleJson_def)
  have c: "valid ?c" by (simp add: valid_def)
  note t = loadConfig_valid_unchanged [OF a b c]
  have d: "loadConfig exampleJson (exampleWorld (Some ?d)) = (?c, exampleWorld (Some ?d))"
    using t by blast
  have e: "writeLog (snd (loadConfig exampleJson (exampleWorld (Some ?d)))) = []"
    using t by (simp add: exampleWorld_def)
  show ?thesis by (intro conjI a b c d e)
qed

section \<open>The interval commands\<close>

lemma updateInterval_cfg:
  "cfg (updateInterval J n st) = (cfg st)\<lparr>IntervalMinutes := max 1 (min 1440 n)\<rparr>"
proof -
  have "(if (if n < 1 then 1 else n) > 1440 then 1440 else (if n < 1 then 1 else n))
          = max 1 (min 1440 n)"
    by simp
  then show ?thesis
    by (simp add: updateInterval_def Let_def minInterval_def maxInterval_def split_def)
qed

lemma updateInterval_world:
  "world (updateInterval J n st) =
     (case saveConfig J (cfg (updateInterval J n st)) (world st) of
        (Some e, w') \<Rightarrow> Printf WarnSaveConfig w' | (None, w') \<Rightarrow> w')"
proof -
  have "(if (if n < 1 then 1 else n) > 1440 then 1440 else (if n < 1 then 1 else n))
          = max 1 (min 1440 n)"
    by simp
  then show ?thesis
    unfolding updateInterval_cfg
    by (simp add: updateInterval_def Let_def minInterval_def maxInterval_def
          split: prod.splits option.splits)
qed

lemma updateInterval_saved:
  assumes "MarshalIndent J (cfg (updateInterval J n st)) = Some out"
  shows "writeLog (world (updateInterval J n st)) = writeLog (world st) @ [out]"
    and "writable (world st) \<Longrightarrow> settings (world (updateInterval J n st)) = Some out"
  unfolding updateInterval_world
  using assms by (simp_all add: saved_writeLog saved_settings)

lemma adjust_interval:
  "int64 (IntervalMinutes (cfg st) + delta) \<Longrightarrow>
     IntervalMinutes (cfg (adjust J delta st)) = max 1 (min 1440 (IntervalMinutes (cfg st) + delta))"
  by (simp add: adjust_def updateInterval_cfg wrap64_id)

text \<open>
  C3. Adjusting the interval by \<open>delta\<close> stores the current interval plus \<open>delta\<close>, clamped
  to the range from 1 to 1440. The sum is Go's, so the statement is for sums that fit an
  \<open>int\<close>; they do for every interval from 1 to 1440 and every delta from -1440 to 1440, the
  deltas of the menu among them. The stored value always lies between 1 and 1440 and does
  not decrease when \<open>delta\<close> grows. Title and message are kept. The configuration is saved on every call, whether or not the interval
  changed: its encoding is passed to \<open>os.WriteFile\<close> and is the content of the file
  afterwards when the write succeeds.
\<close>

theorem adjust_clamps_and_saves:
  "(int64 (IntervalMinutes (cfg st) + delta) \<longrightarrow>
      IntervalMinutes (cfg (adjust J delta st))
        = max 1 (min 1440 (IntervalMinutes (cfg st) + delta)))
   \<and> (1 \<le> IntervalMinutes (cfg st) \<and> IntervalMinutes (cfg st) \<le> 1440
        \<and> - 1440 \<le> delta \<and> delta \<le> 1440 \<longrightarrow>
      IntervalMinutes (cfg (adjust J delta st))
        = max 1 (min 1440 (IntervalMinutes (cfg st) + delta)))
   \<and> 1 \<le> IntervalMinutes (cfg (adjust J delta st))
   \<and> IntervalMinutes (cfg (adjust J delta st)) \<le> 1440
   \<and> (int64 (IntervalMinutes (cfg st) + delta) \<and> int64 (IntervalMinutes (cfg st) + delta')
        \<and> delta \<le> delta' \<longrightarrow>
      IntervalMinutes (cfg (adjust J delta st)) \<le> IntervalMinutes (cfg (adjust J delta' st)))
   \<and> ReminderTitle (cfg (adjust J delta st)) = ReminderTitle (cfg st)
   \<and> ReminderMessage (cfg (adjust J delta st)) = ReminderMessage (cfg st)
   \<and> (MarshalIndent J (cfg (adjust J delta st)) = Some out \<longrightarrow>
        writeLog (world (adjust J delta st)) = writeLog (world st) @ [out]
        \<and> (writable (world st) \<longrightarrow> settings (world (adjust J delta st)) = Some out))"
proof -
  have 1: "1 \<le> IntervalMinutes (cfg (adjust J delta st))"
    "IntervalMinutes (cfg (adjust J delta st)) \<le> 1440"
    "ReminderTitle (cfg (adjust J delta st)) = ReminderTitle (cfg st)"
    "ReminderMessage (cfg (adjust J delta st)) = ReminderMessage (cfg st)"
    by (simp_all add: adjust_def updateInterval_cfg)
  have 2: "IntervalMinutes (cfg (adjust J delta st)) \<le> IntervalMinutes (cfg (adjust J delta' st))"
    if "int64 (IntervalMinutes (cfg st) + delta) \<and> int64 (IntervalMinutes (cfg st) + delta')
        \<and> delta \<le> delta'"
  proof -
    have "max 1 (min 1440 (IntervalMinutes (cfg st) + delta))
            \<le> max 1 (min 1440 (IntervalMinutes (cfg st) + delta'))"
      using that by (intro max.mono min.mono) simp_all
    then show ?thesis using that by (simp only: adjust_interval)
  qed
  have 3: "writeLog (world (adjust J delta st)) = writeLog (world st) @ [out]"
    if "MarshalIndent J (cfg (adjust J delta st)) = Some out"
    using that unfolding adjust_def by (rule updateInterval_saved(1))
  have 4: "settings (world (adjust J delta st)) = Some out"
    if "MarshalIndent J (cfg (adjust J delta st)) = Some out" "writable (world st)"
    using that unfolding adjust_def by (rule updateInterval_saved(2))
  have 5: "IntervalMinutes (cfg (adjust J delta st))
        = max 1 (min 1440 (IntervalMinutes (cfg st) + delta))"
    if "1 \<le> IntervalMinutes (cfg st) \<and> IntervalMinutes (cfg st) \<le> 1440
        \<and> - 1440 \<le> delta \<and> delta \<le> 1440"
  proof -
    have "int64 (IntervalMinutes (cfg st) + delta)"
      using that by (simp add: int64_def)
    then show ?thesis by (rule adjust_interval)
  qed
  show ?thesis
    using 1 2 3 4 5 adjust_interval [of st delta J] by blast
qed

lemma exampleState_fields:
  "cfg (exampleState i l s) = \<lparr>IntervalMinutes = i, ReminderTitle = ''Posture Reminder'',
             ReminderMessage = ''Time to check your posture!''\<rparr>"
  "lastTriggeredUnix (exampleState i l s) = l"
  "isMessageShowing (exampleState i l s) = s"
  "spawned (exampleState i l s) = []"
  "world (exampleState i l s) = exampleWorld None"
  by (simp_all add: exampleState_def)

lemma exampleJson_marshal:
  "MarshalIndent exampleJson c = Some (''interval_minutes: '' @ Sprintf_d (IntervalMinutes c)
        @ '', reminder_title: '' @ ReminderTitle c
        @ '', reminder_message: '' @ ReminderMessage c)"
  by (simp add: exampleJson_def)

lemma Sprintf_1440: "Sprintf_d 1440 = ''1440''"
  by (simp add: Sprintf_d_def digits.simps)

lemma Sprintf_3: "Sprintf_d 3 = ''3''"
  by (simp add: Sprintf_d_def digits.simps)

theorem adjust_clamps_and_saves_witness:
  "int64 (IntervalMinutes (cfg (exampleState 1440 0 False)) + (- 60))
   \<and> int64 (IntervalMinutes (cfg (exampleState 1440 0 False)) + 60)
   \<and> 1 \<le> IntervalMinutes (cfg (exampleState 1440 0 False))
   \<and> IntervalMinutes (cfg (exampleState 1440 0 False)) \<le> 1440
   \<and> (- 1440 :: int) \<le> 60 \<and> (60 :: int) \<le> 1440
   \<and> IntervalMinutes (cfg (adjust exampleJson (- 60) (exampleState 1440 0 False))) = 1380
   \<and> IntervalMinutes (cfg (adjust exampleJson 60 (exampleState 1440 0 False))) = 1440
   \<and> IntervalMinutes (cfg (adjust exampleJson (- 60) (exampleState 1440 0 False)))
        \<le> IntervalMinutes (cfg (adjust exampleJson 60 (exampleState 1440 0 False)))
   \<and> writable (world (exampleState 1440 0 False))
   \<and> writeLog (world (adjust exampleJson 60 (exampleState 1440 0 False)))
        = [''interval_minutes: 1440, reminder_title: Posture Reminder, reminder_message: Time to check your posture!'']
   \<and> settings (world (adjust exampleJson 60 (exampleState 1440 0 False)))
        = Some ''interval_minutes: 1440, reminder_title: Posture Reminder, reminder_message: Time to check your posture!''"
proof -
  let ?st = "exampleState 1440 0 False"
  let ?out = "''interval_minutes: 1440, reminder_title: Posture Reminder, reminder_message: Time to check your posture!''"
  have a: "int64 (IntervalMinutes (cfg ?st) + (- 60))" "int64 (IntervalMinutes (cfg ?st) + 60)"
    by (simp_all add: exampleState_fields int64_def)
  have w: "writable (world ?st)" "writeLog (world ?st) = []"
    by (simp_all add: exampleState_fields exampleWorld_def)
  note t1 = adjust_clamps_and_saves [of ?st "- 60" exampleJson 60 ?out]
  note t2 = adjust_clamps_and_saves [of ?st 60 exampleJson 60 ?out]
  have b: "IntervalMinutes (cfg (adjust exampleJson (- 60) ?st)) = 1380"
    using t1 a by (simp add: exampleState_fields)
  have r: "1 \<le> IntervalMinutes (cfg ?st)" "IntervalMinutes (cfg ?st) \<le> 1440"
    "(- 1440 :: int) \<le> 60" "(60 :: int) \<le> 1440"
    by (simp_all add: exampleState_fields)
  have "IntervalMinutes (cfg (adjust exampleJson 60 ?st))
          = max 1 (min 1440 (IntervalMinutes (cfg ?st) + 60))"
    using t2 r by blast
  then have c: "IntervalMinutes (cfg (adjust exampleJson 60 ?st)) = 1440"
    by (simp add: exampleState_fields)
  have le: "(- 60 :: int) \<le> 60" by simp
  have d: "IntervalMinutes (cfg (adjust exampleJson (- 60) ?st))
        \<le> IntervalMinutes (cfg (adjust exampleJson 60 ?st))"
    using t1 a le by blast
  have m: "MarshalIndent exampleJson (cfg (adjust exampleJson 60 ?st)) = Some ?out"
    using t2 c by (simp add: exampleJson_marshal exampleState_fields Sprintf_1440)
  have e: "writeLog (world (adjust exampleJson 60 ?st)) = [?out]"
    using t2 m w by simp
  have f: "settings (world (adjust exampleJson 60 ?st)) = Some ?out"
    using t2 m w by blast
  show ?thesis by (intro conjI a r b c d w(1) e f)
qed

text \<open>
  C8. The reset command sets the interval to 3 minutes whatever it was before, and saves the
  configuration.
\<close>

theorem reset_default:
  "IntervalMinutes (cfg (clicked J ResetDefault st)) = 3
   \<and> ReminderTitle (cfg (clicked J ResetDefault st)) = ReminderTitle (cfg st)
   \<and> ReminderMessage (cfg (clicked J ResetDefault st)) = ReminderMessage (cfg st)
   \<and> (MarshalIndent J (cfg (clicked J ResetDefault st)) = Some out \<longrightarrow>
        writeLog (world (clicked J ResetDefault st)) = writeLog (world st) @ [out]
        \<and> (writable (world st) \<longrightarrow> settings (world (clicked J ResetDefault st)) = Some out))"
proof -
  have 1: "IntervalMinutes (cfg (clicked J ResetDefault st)) = 3"
    "ReminderTitle (cfg (clicked J ResetDefault st)) = ReminderTitle (cfg st)"
    "ReminderMessage (cfg (clicked J ResetDefault st)) = ReminderMessage (cfg st)"
    by (simp_all add: updateInterval_cfg defaultInterval_def)
  have 3: "writeLog (world (clicked J ResetDefault st)) = writeLog (world st) @ [out]"
    if "MarshalIndent J (cfg (clicked J ResetDefault st)) = Some out"
    using that unfolding clicked.simps by (rule updateInterval_saved(1))
  have 4: "settings (world (clicked J ResetDefault st)) = Some out"
    if "MarshalIndent J (cfg (clicked J ResetDefault st)) = Some out" "writable (world st)"
    using that unfolding clicked.simps by (rule updateInterval_saved(2))
  show ?thesis
    using 1 3 4 by blast
qed

theorem reset_default_witness:
  "IntervalMinutes (cfg (clicked exampleJson ResetDefault (exampleState 1440 0 False))) = 3
   \<and> writable (world (exampleState 1440 0 False))
   \<and> settings (world (clicked exampleJson ResetDefault (exampleState 1440 0 False)))
        = Some ''interval_minutes: 3, reminder_title: Posture Reminder, reminder_message: Time to check your posture!''
   \<and> IntervalMinutes (cfg (clicked exampleJson ResetDefault (exampleState 3 0 False))) = 3
   \<and> writeLog (world (clicked exampleJson ResetDefault (exampleState 3 0 False)))
        = [''interval_minutes: 3, reminder_title: Posture Reminder, reminder_message: Time to check your posture!'']"
proof -
  let ?st = "exampleState 1440 0 False"
  let ?st3 = "exampleState 3 0 False"
  let ?out = "''interval_minutes: 3, reminder_title: Posture Reminder, reminder_message: Time to check your posture!''"
  have w: "writable (world ?st)" "writeLog (world ?st3) = []"
    by (simp_all add: exampleState_fields exampleWorld_def)
  note t = reset_default [of exampleJson ?st ?out]
  note t3 = reset_default [of exampleJson ?st3 ?out]
  have a: "IntervalMinutes (cfg (clicked exampleJson ResetDefault ?st)) = 3"
    using t by blast
  have a3: "IntervalMinutes (cfg (clicked exampleJson ResetDefault ?st3)) = 3"
    using t3 by blast
  have m: "MarshalIndent exampleJson (cfg (clicked exampleJson ResetDefault ?st)) = Some ?out"
    using t by (simp add: exampleJson_marshal exampleState_fields Sprintf_3)
  have m3: "MarshalIndent exampleJson (cfg (clicked exampleJson ResetDefault ?st3)) = Some ?out"
    using t3 by (simp add: exampleJson_marshal exampleState_fields Sprintf_3)
  have b: "settings (world (clicked exampleJson ResetDefault ?st)) = Some ?out"
    using t m w(1) by blast
  have c: "writeLog (world (clicked exampleJson ResetDefault ?st3)) = [?out]"
    using t3 m3 w(2) by simp
  show ?thesis by (intro conjI a w(1) b a3 c)
qed

section \<open>The tick loop\<close>

lemma tick_display_frame:
  "cfg (tick_display now st) = cfg st"
  "lastTriggeredUnix (tick_display now st) = lastTriggeredUnix st"
  "isMessageShowing (tick_display now st) = isMessageShowing st"
  "spawned (tick_display now st) = spawned st"
  "world (tick_display now st) = world st"
  by (simp_all add: tick_display_def Let_def)

lemma tick_display_showing:
  "isMessageShowing st \<Longrightarrow>
     tick_display now st = st\<lparr>tooltip := baseTooltip, countdownTitle := ''Countdown:''\<rparr>"
  by (simp add: tick_display_def)

lemma tick_trigger_frame:
  "cfg (tick_trigger now st) = cfg st"
  "lastTriggeredUnix (tick_trigger now st) = lastTriggeredUnix st"
  "world (tick_trigger now st) = world st"
  "tooltip (tick_trigger now st) = tooltip st"
  "countdownTitle (tick_trigger now st) = countdownTitle st"
  by (simp_all add: tick_trigger_def Let_def)

lemma tick_trigger_showing: "isMessageShowing st \<Longrightarrow> tick_trigger now st = st"
  by (simp add: tick_trigger_def)

lemma interval_duration:
  assumes "1 \<le> i" "i \<le> 1440"
  shows "wrap64 (i * Minute) = i * Minute" and "0 < i * Minute" and "i * Minute \<le> maxDuration"
proof -
  have m: "i * Minute = i * 60000000000" by (simp add: Minute_def Second_def)
  have b: "0 < i * 60000000000" "i * 60000000000 \<le> 1440 * 60000000000"
    using assms by simp_all
  then have "int64 (i * 60000000000)" by (simp add: int64_def)
  then show "wrap64 (i * Minute) = i * Minute" unfolding m by (rule wrap64_id)
  show "0 < i * Minute" unfolding m using b by simp
  show "i * Minute \<le> maxDuration" unfolding m using b by (simp add: maxDuration_def)
qed

lemma Since_ge:
  assumes "0 < D" "D \<le> maxDuration"
  shows "D \<le> Since now t \<longleftrightarrow> D \<le> now - t"
  using assms by (auto simp add: Since_def Sub_def minDuration_def maxDuration_def)

lemma tick_trigger_due:
  assumes "\<not> isMessageShowing st" "1 \<le> IntervalMinutes (cfg st)" "IntervalMinutes (cfg st) \<le> 1440"
  shows "tick_trigger now st =
           (if IntervalMinutes (cfg st) * Minute \<le> now - lastTriggeredUnix st
            then st\<lparr>isMessageShowing := True,
                    spawned := spawned st @ [(ReminderTitle (cfg st), ReminderMessage (cfg st))]\<rparr>
            else st)"
proof -
  note d = interval_duration [OF assms(2,3)]
  have "(wrap64 (IntervalMinutes (cfg st) * Minute) \<le> Since now (lastTriggeredUnix st))
          = (IntervalMinutes (cfg st) * Minute \<le> now - lastTriggeredUnix st)"
    unfolding d(1) using d(2,3) by (rule Since_ge)
  then show ?thesis
    using assms(1) by (simp add: tick_trigger_def Let_def)
qed

lemma tick_due:
  assumes "\<not> isMessageShowing st" "1 \<le> IntervalMinutes (cfg st)" "IntervalMinutes (cfg st) \<le> 1440"
  shows "spawned (tick now1 now2 st) =
           (if IntervalMinutes (cfg st) * Minute \<le> now2 - lastTriggeredUnix st
            then spawned st @ [(ReminderTitle (cfg st), ReminderMessage (cfg st))]
            else spawned st)"
    and "isMessageShowing (tick now1 now2 st) =
           (IntervalMinutes (cfg st) * Minute \<le> now2 - lastTriggeredUnix st)"
proof -
  have a: "\<not> isMessageShowing (tick_display now1 st)"
    "1 \<le> IntervalMinutes (cfg (tick_display now1 st))"
    "IntervalMinutes (cfg (tick_display now1 st)) \<le> 1440"
    using assms by (simp_all add: tick_display_frame)
  show "spawned (tick now1 now2 st) =
           (if IntervalMinutes (cfg st) * Minute \<le> now2 - lastTriggeredUnix st
            then spawned st @ [(ReminderTitle (cfg st), ReminderMessage (cfg st))]
            else spawned st)"
    unfolding tick_def tick_trigger_due [OF a] by (simp add: tick_display_frame)
  show "isMessageShowing (tick now1 now2 st) =
           (IntervalMinutes (cfg st) * Minute \<le> now2 - lastTriggeredUnix st)"
    unfolding tick_def tick_trigger_due [OF a] using assms(1) by (simp add: tick_display_frame)
qed

lemma tick_frame:
  "cfg (tick now1 now2 st) = cfg st"
  "lastTriggeredUnix (tick now1 now2 st) = lastTriggeredUnix st"
  "world (tick now1 now2 st) = world st"
  by (simp_all add: tick_def tick_trigger_frame tick_display_frame)

text \<open>
  C1. On a tick that finds no message showing (and the interval within its range of 1 to
  1440 minutes, where \<open>loadConfig\<close> and \<open>updateInterval\<close> keep it), a delivery goroutine is
  started if and only if the time since \<open>lastTriggeredUnix\<close> has reached the interval. With
  an interval of 5 minutes, the tick one second before the 5 minutes are over starts nothing,
  and the tick one second later starts exactly one delivery. The tick that starts a delivery
  sets \<open>isMessageShowing\<close> and leaves the world untouched: no toast or message box has been
  shown yet. No tick writes \<open>lastTriggeredUnix\<close>; in the goroutine the toast, the message
  box and the clearing of the flag leave it as it is, and only the last statement stores
  the clock in it.
\<close>

theorem tick_triggers_when_due:
  assumes "\<not> isMessageShowing st"
    and "1 \<le> IntervalMinutes (cfg st)" and "IntervalMinutes (cfg st) \<le> 1440"
  shows "(spawned (tick now1 now2 st) \<noteq> spawned st)
           = (IntervalMinutes (cfg st) * Minute \<le> now2 - lastTriggeredUnix st)
       \<and> (IntervalMinutes (cfg st) * Minute \<le> now2 - lastTriggeredUnix st \<longrightarrow>
            spawned (tick now1 now2 st)
              = spawned st @ [(ReminderTitle (cfg st), ReminderMessage (cfg st))]
            \<and> isMessageShowing (tick now1 now2 st))
       \<and> (now2 - lastTriggeredUnix st < IntervalMinutes (cfg st) * Minute \<longrightarrow>
            spawned (tick now1 now2 st) = spawned st \<and> \<not> isMessageShowing (tick now1 now2 st))
       \<and> (IntervalMinutes (cfg st) = 5 \<longrightarrow>
            spawned (tick now1 (lastTriggeredUnix st + 5 * Minute - Second) st) = spawned st
            \<and> spawned (tick now3 (lastTriggeredUnix st + 5 * Minute)
                        (tick now1 (lastTriggeredUnix st + 5 * Minute - Second) st))
                = spawned st @ [(ReminderTitle (cfg st), ReminderMessage (cfg st))])
       \<and> world (tick now1 now2 st) = world st
       \<and> lastTriggeredUnix (tick now1 now2 st) = lastTriggeredUnix st
       \<and> lastTriggeredUnix (snd (delivery_step tit msg push t (AtShowToast, s))) = lastTriggeredUnix s
       \<and> lastTriggeredUnix (snd (delivery_step tit msg push t (AtShowMessage, s))) = lastTriggeredUnix s
       \<and> lastTriggeredUnix (snd (delivery_step tit msg push t (AtStoreFlag, s))) = lastTriggeredUnix s
       \<and> delivery_step tit msg push t (AtStoreLast, s) = (Finished, s\<lparr>lastTriggeredUnix := t\<rparr>)"
proof -
  note sp = tick_due(1) [OF assms]
  note sh = tick_due(2) [OF assms]
  have 1: "(spawned (tick now1 now2 st) \<noteq> spawned st)
           = (IntervalMinutes (cfg st) * Minute \<le> now2 - lastTriggeredUnix st)"
    unfolding sp by simp
  have 2: "spawned (tick now1 now2 st)
              = spawned st @ [(ReminderTitle (cfg st), ReminderMessage (cfg st))]
            \<and> isMessageShowing (tick now1 now2 st)"
    if "IntervalMinutes (cfg st) * Minute \<le> now2 - lastTriggeredUnix st"
    unfolding sp sh using that by simp
  have 3: "spawned (tick now1 now2 st) = spawned st \<and> \<not> isMessageShowing (tick now1 now2 st)"
    if "now2 - lastTriggeredUnix st < IntervalMinutes (cfg st) * Minute"
    unfolding sp sh using that by simp
  have 4: "spawned (tick now1 (lastTriggeredUnix st + 5 * Minute - Second) st) = spawned st
            \<and> spawned (tick now3 (lastTriggeredUnix st + 5 * Minute)
                        (tick now1 (lastTriggeredUnix st + 5 * Minute - Second) st))
                = spawned st @ [(ReminderTitle (cfg st), ReminderMessage (cfg st))]"
    if five: "IntervalMinutes (cfg st) = 5"
  proof -
    let ?st1 = "tick now1 (lastTriggeredUnix st + 5 * Minute - Second) st"
    have early: "\<not> IntervalMinutes (cfg st) * Minute
                    \<le> lastTriggeredUnix st + 5 * Minute - Second - lastTriggeredUnix st"
      using five by (simp add: Second_def)
    have a: "spawned ?st1 = spawned st"
      using tick_due(1) [OF assms, of now1 "lastTriggeredUnix st + 5 * Minute - Second"] early
      by simp
    have b: "\<not> isMessageShowing ?st1"
      using tick_due(2) [OF assms, of now1 "lastTriggeredUnix st + 5 * Minute - Second"] early
      by simp
    have c: "1 \<le> IntervalMinutes (cfg ?st1)" "IntervalMinutes (cfg ?st1) \<le> 1440"
      using assms by (simp_all add: tick_frame)
    have "spawned (tick now3 (lastTriggeredUnix st + 5 * Minute) ?st1)
            = spawned ?st1 @ [(ReminderTitle (cfg ?st1), ReminderMessage (cfg ?st1))]"
      using tick_due(1) [OF b c, of now3 "lastTriggeredUnix st + 5 * Minute"] five
      by (simp add: tick_frame)
    then show ?thesis using a by (simp add: tick_frame)
  qed
  have 5: "lastTriggeredUnix (snd (delivery_step tit msg push t (AtShowToast, s))) = lastTriggeredUnix s"
    by (simp add: showToast_def Let_def split: option.splits)
  have 6: "lastTriggeredUnix (snd (delivery_step tit msg push t (AtShowMessage, s))) = lastTriggeredUnix s"
    "lastTriggeredUnix (snd (delivery_step tit msg push t (AtStoreFlag, s))) = lastTriggeredUnix s"
    "delivery_step tit msg push t (AtStoreLast, s) = (Finished, s\<lparr>lastTriggeredUnix := t\<rparr>)"
    by simp_all
  show ?thesis
    using 1 2 3 4 5 6 tick_frame(2,3) [of now1 now2 st] by blast
qed

theorem tick_triggers_when_due_witness:
  "\<not> isMessageShowing (exampleState 5 0 False)
   \<and> 1 \<le> IntervalMinutes (cfg (exampleState 5 0 False))
   \<and> IntervalMinutes (cfg (exampleState 5 0 False)) \<le> 1440
   \<and> IntervalMinutes (cfg (exampleState 5 0 False)) = 5
   \<and> spawned (tick 0 (lastTriggeredUnix (exampleState 5 0 False) + 5 * Minute - Second)
        (exampleState 5 0 False)) = []
   \<and> spawned (tick 0 (lastTriggeredUnix (exampleState 5 0 False) + 5 * Minute)
        (tick 0 (lastTriggeredUnix (exampleState 5 0 False) + 5 * Minute - Second)
           (exampleState 5 0 False)))
      = [(''Posture Reminder'', ''Time to check your posture!'')]
   \<and> IntervalMinutes (cfg (exampleState 5 0 False)) * Minute
        \<le> 300000000000 - lastTriggeredUnix (exampleState 5 0 False)
   \<and> isMessageShowing (tick 0 300000000000 (exampleState 5 0 False))
   \<and> 299000000000 - lastTriggeredUnix (exampleState 5 0 False)
        < IntervalMinutes (cfg (exampleState 5 0 False)) * Minute
   \<and> \<not> isMessageShowing (tick 0 299000000000 (exampleState 5 0 False))"
proof -
  let ?st = "exampleState 5 0 False"
  have a: "\<not> isMessageShowing ?st" "1 \<le> IntervalMinutes (cfg ?st)"
    "IntervalMinutes (cfg ?st) \<le> 1440" "IntervalMinutes (cfg ?st) = 5"
    by (simp_all add: exampleState_fields)
  have sp: "spawned ?st = []" "ReminderTitle (cfg ?st) = ''Posture Reminder''"
    "ReminderMessage (cfg ?st) = ''Time to check your posture!''"
    by (simp_all add: exampleState_fields)
  have due: "IntervalMinutes (cfg ?st) * Minute \<le> 300000000000 - lastTriggeredUnix ?st"
    by (simp add: exampleState_fields Minute_def Second_def)
  have early: "299000000000 - lastTriggeredUnix ?st < IntervalMinutes (cfg ?st) * Minute"
    by (simp add: exampleState_fields Minute_def Second_def)
  note t1 = tick_triggers_when_due [OF a(1,2,3), where ?now1.0 = 0 and ?now2.0 = 300000000000
      and ?now3.0 = 0]
  note t2 = tick_triggers_when_due [OF a(1,2,3), where ?now1.0 = 0 and ?now2.0 = 299000000000
      and ?now3.0 = 0]
  have b: "spawned (tick 0 (lastTriggeredUnix ?st + 5 * Minute - Second) ?st) = []"
    using t1 a(4) sp(1) by simp
  have c: "spawned (tick 0 (lastTriggeredUnix ?st + 5 * Minute)
        (tick 0 (lastTriggeredUnix ?st + 5 * Minute - Second) ?st))
      = [(''Posture Reminder'', ''Time to check your posture!'')]"
    using t1 a(4) sp by simp
  have d: "isMessageShowing (tick 0 300000000000 ?st)"
    using t1 due by blast
  have e: "\<not> isMessageShowing (tick 0 299000000000 ?st)"
    using t2 early by blast
  show ?thesis by (intro conjI a b c due d early e)
qed

text \<open>
  C2. A tick that finds a message showing starts no delivery, however long ago the last
  trigger was, and shows the base state: the tooltip is the base tooltip and the countdown
  title is the bare \<open>"Countdown:"\<close>. Each half of the tick does its part on its own: the
  display half shows the base state, the trigger half changes nothing.
\<close>

theorem tick_while_showing:
  assumes "isMessageShowing st"
  shows "tick now1 now2 st = st\<lparr>tooltip := baseTooltip, countdownTitle := ''Countdown:''\<rparr>
       \<and> tick_display now1 st = st\<lparr>tooltip := baseTooltip, countdownTitle := ''Countdown:''\<rparr>
       \<and> tick_trigger now2 st = st
       \<and> spawned (tick now1 now2 st) = spawned st
       \<and> isMessageShowing (tick now1 now2 st)
       \<and> tooltip (tick now1 now2 st) = baseTooltip
       \<and> countdownTitle (tick now1 now2 st) = ''Countdown:''
       \<and> world (tick now1 now2 st) = world st"
proof -
  have "tick now1 now2 st = st\<lparr>tooltip := baseTooltip, countdownTitle := ''Countdown:''\<rparr>"
    using assms by (simp add: tick_def tick_display_showing tick_trigger_showing)
  then show ?thesis
    using assms by (simp add: tick_display_showing tick_trigger_showing)
qed

theorem tick_while_showing_witness:
  "isMessageShowing (exampleState 3 0 True)
   \<and> 3 * Minute \<le> 1000000000000000 - lastTriggeredUnix (exampleState 3 0 True)
   \<and> spawned (tick 1000000000000000 1000000000000000 (exampleState 3 0 True)) = []
   \<and> tooltip (tick 1000000000000000 1000000000000000 (exampleState 3 0 True)) = baseTooltip
   \<and> countdownTitle (tick 1000000000000000 1000000000000000 (exampleState 3 0 True))
        = ''Countdown:''"
proof -
  let ?st = "exampleState 3 0 True"
  have a: "isMessageShowing ?st" by (simp add: exampleState_fields)
  have b: "3 * Minute \<le> 1000000000000000 - lastTriggeredUnix ?st"
    by (simp add: exampleState_fields Minute_def Second_def)
  note t = tick_while_showing [OF a, of 1000000000000000 1000000000000000]
  have c: "spawned (tick 1000000000000000 1000000000000000 ?st) = []"
    using t by (simp add: exampleState_fields)
  have d: "tooltip (tick 1000000000000000 1000000000000000 ?st) = baseTooltip"
    "countdownTitle (tick 1000000000000000 1000000000000000 ?st) = ''Countdown:''"
    using t by blast+
  show ?thesis by (intro conjI a b c d)
qed

lemma delivery_eq:
  "delivery tit msg push now st =
     st\<lparr>world := (case push of
                    None \<Rightarrow> (world st)\<lparr>toasts := toasts (world st) @ [(tit, msg)]\<rparr>
                  | Some err \<Rightarrow>
                      showMessage tit msg
                        (Printf WarnToast ((world st)\<lparr>toasts := toasts (world st) @ [(tit, msg)]\<rparr>))),
        isMessageShowing := False, lastTriggeredUnix := now\<rparr>"
  by (simp add: delivery_def showToast_def Let_def split: option.splits)

lemma delivery_steps:
  "(delivery_step tit msg push now ^^ 4) (AtShowToast, st)
     = (Finished, delivery tit msg push now st)"
  by (cases push)
     (simp_all add: eval_nat_numeral delivery_eq showToast_def Let_def)

text \<open>
  C7. A delivery pushes the toast first and exactly once; the message box is opened exactly
  when the push returned an error, and then once. There is no further attempt: the goroutine
  goes from the toast to the message box (on an error only), then clears the flag, stores the
  clock and is finished. Whatever the push returned, \<open>isMessageShowing\<close> is false and
  \<open>lastTriggeredUnix\<close> is the clock afterwards, the same for a failed and a successful push.
\<close>

theorem delivery_fallback:
  "toasts (world (delivery tit msg push now st)) = toasts (world st) @ [(tit, msg)]
   \<and> boxes (world (delivery tit msg push now st))
       = (if push = None then boxes (world st) else boxes (world st) @ [(tit, msg)])
   \<and> \<not> isMessageShowing (delivery tit msg push now st)
   \<and> lastTriggeredUnix (delivery tit msg push now st) = now
   \<and> isMessageShowing (delivery tit msg (Some err) now st)
       = isMessageShowing (delivery tit msg None now st)
   \<and> lastTriggeredUnix (delivery tit msg (Some err) now st)
       = lastTriggeredUnix (delivery tit msg None now st)
   \<and> cfg (delivery tit msg push now st) = cfg st
   \<and> spawned (delivery tit msg push now st) = spawned st
   \<and> fst (delivery_step tit msg push now (AtShowToast, st))
       = (if push = None then AtStoreFlag else AtShowMessage)
   \<and> boxes (world (snd (delivery_step tit msg push now (AtShowToast, st)))) = boxes (world st)
   \<and> toasts (world (snd (delivery_step tit msg push now (AtShowToast, st))))
       = toasts (world st) @ [(tit, msg)]
   \<and> delivery_step tit msg push now (AtShowMessage, st)
       = (AtStoreFlag, st\<lparr>world := (world st)\<lparr>boxes := boxes (world st) @ [(tit, msg)]\<rparr>\<rparr>)
   \<and> delivery_step tit msg push now (AtStoreFlag, st)
       = (AtStoreLast, st\<lparr>isMessageShowing := False\<rparr>)
   \<and> delivery_step tit msg push now (AtStoreLast, st)
       = (Finished, st\<lparr>lastTriggeredUnix := now\<rparr>)
   \<and> delivery_step tit msg push now (Finished, st) = (Finished, st)
   \<and> (delivery_step tit msg push now ^^ 4) (AtShowToast, st)
       = (Finished, delivery tit msg push now st)"
proof -
  have 1: "toasts (world (delivery tit msg push now st)) = toasts (world st) @ [(tit, msg)]"
    "boxes (world (delivery tit msg push now st))
       = (if push = None then boxes (world st) else boxes (world st) @ [(tit, msg)])"
    by (cases push; simp add: delivery_eq showMessage_def Printf_def)+
  have 2: "\<not> isMessageShowing (delivery tit msg push now st)"
    "lastTriggeredUnix (delivery tit msg push now st) = now"
    "cfg (delivery tit msg push now st) = cfg st"
    "spawned (delivery tit msg push now st) = spawned st"
    by (simp_all add: delivery_eq)
  have 3: "isMessageShowing (delivery tit msg (Some err) now st)
       = isMessageShowing (delivery tit msg None now st)"
    "lastTriggeredUnix (delivery tit msg (Some err) now st)
       = lastTriggeredUnix (delivery tit msg None now st)"
    by (simp_all add: delivery_eq)
  have 4: "fst (delivery_step tit msg push now (AtShowToast, st))
       = (if push = None then AtStoreFlag else AtShowMessage)"
    "boxes (world (snd (delivery_step tit msg push now (AtShowToast, st)))) = boxes (world st)"
    "toasts (world (snd (delivery_step tit msg push now (AtShowToast, st))))
       = toasts (world st) @ [(tit, msg)]"
    by (cases push; simp add: showToast_def Let_def Printf_def)+
  have 5: "delivery_step tit msg push now (AtShowMessage, st)
       = (AtStoreFlag, st\<lparr>world := (world st)\<lparr>boxes := boxes (world st) @ [(tit, msg)]\<rparr>\<rparr>)"
    "delivery_step tit msg push now (AtStoreFlag, st)
       = (AtStoreLast, st\<lparr>isMessageShowing := False\<rparr>)"
    "delivery_step tit msg push now (AtStoreLast, st)
       = (Finished, st\<lparr>lastTriggeredUnix := now\<rparr>)"
    "delivery_step tit msg push now (Finished, st) = (Finished, st)"
    by (simp_all add: showMessage_def)
  show ?thesis
    by (intro conjI 1 2 3 4 5 delivery_steps)
qed

section \<open>The configuration in every reachable state\<close>

text \<open>
  The configuration of a running application is always valid: \<open>loadConfig\<close> returns a
  valid one, and no step makes it invalid. So the interval is between 1 and 1440 minutes on
  every tick and before every interval command.
\<close>

lemma defaultCfg_valid: "valid defaultCfg"
  by (simp add: valid_def defaultCfg_eq)

lemma loadConfig_valid: "valid (fst (loadConfig J w))"
proof (cases "settings w")
  case None
  then show ?thesis
    by (simp add: loadConfig_unreadable saveDefault_eq defaultCfg_valid)
next
  case (Some data)
  show ?thesis
  proof (cases "Unmarshal J data")
    case None
    with Some show ?thesis
      by (simp add: loadConfig_invalid saveDefault_eq defaultCfg_valid)
  next
    case (Some c)
    with \<open>settings w = Some data\<close> show ?thesis
      by (simp add: loadConfig_parsed sanitized_valid)
  qed
qed

lemma onReady_cfg: "cfg (onReady J now w) = fst (loadConfig J w)"
  by (simp add: onReady_def Let_def split_def)

lemma updateInterval_valid: "valid (cfg st) \<Longrightarrow> valid (cfg (updateInterval J n st))"
  by (simp add: valid_def updateInterval_cfg)

lemma clicked_valid: "valid (cfg st) \<Longrightarrow> valid (cfg (clicked J item st))"
  by (cases item) (simp_all add: adjust_def updateInterval_valid)

lemma delivery_step_cfg: "cfg (snd (delivery_step tit msg push now (p, st))) = cfg st"
  by (cases p) (simp_all add: showToast_def Let_def split: option.splits)

lemma reachable_valid: "reachable J st \<Longrightarrow> valid (cfg st)"
proof (induction rule: reachable.induct)
  case (start now w)
  show ?case by (simp add: onReady_cfg loadConfig_valid)
next
  case (ticked st now1 now2)
  then show ?case by (simp add: tick_frame)
next
  case (click st item)
  then show ?case by (simp add: clicked_valid)
next
  case (goroutine st tit msg push now p)
  then show ?case by (simp add: delivery_step_cfg)
qed

lemma reachable_interval:
  "reachable J st \<Longrightarrow> 1 \<le> IntervalMinutes (cfg st) \<and> IntervalMinutes (cfg st) \<le> 1440"
  using reachable_valid [of J st] by (simp add: valid_def)

end
